theory Spec2Isabelle
  imports Complex_Main "HOL-Library.Sublist" "HOL-Library.Log_Nat"
begin

section \<open>Python values used by the subtitle renderer\<close>

text \<open>
  A Python \<open>str\<close> is modelled as a \<open>string\<close> whose characters are the code points
  below 256, so \<open>length\<close> is Python's \<open>len\<close>. Python's unbounded \<open>int\<close> is \<open>int\<close>.
  A Python \<open>float\<close> is an IEEE 754 double. A finite double is modelled by the rational
  number it denotes, and every arithmetic operation rounds its exact result to the nearest
  double, ties to even (section on doubles below). Infinities, NaN, the sign of zero and
  results beyond the range of the doubles are not part of this model.
\<close>

type_synonym seconds = rat

text \<open>
  Both exceptions raised by \<open>hex_to_ass_color\<close> are Python \<open>ValueError\<close>s: the one raised
  by its own \<open>raise\<close> statement for a wrong length (carrying the stripped colour of its
  message), and the one raised by \<open>int(_, 16)\<close> on a slice that is not a hexadecimal
  literal (carrying the slice).
\<close>

datatype error = InvalidHexColor string | InvalidLiteral string

subsection \<open>Whitespace, \<open>str.strip\<close>, \<open>str.lstrip\<close>, \<open>str.split\<close>, \<open>str.join\<close>\<close>

definition is_space :: "char \<Rightarrow> bool" where
  \<comment> \<open>\<open>str.isspace\<close> on the code points below 256\<close>
  "is_space c = (c \<in> set [CHR 0x09, CHR 0x0A, CHR 0x0B, CHR 0x0C, CHR 0x0D,
                           CHR 0x1C, CHR 0x1D, CHR 0x1E, CHR 0x1F, CHR 0x20,
                           CHR 0x85, CHR 0xA0])"

definition strip :: "string \<Rightarrow> string" where
  "strip s = rev (dropWhile is_space (rev (dropWhile is_space s)))"

definition lstrip_chars :: "char \<Rightarrow> string \<Rightarrow> string" where
  \<comment> \<open>\<open>s.lstrip(c)\<close> for a one-character argument: every leading \<open>c\<close> is removed\<close>
  "lstrip_chars c s = dropWhile (\<lambda>x. x = c) s"

fun split_acc :: "string \<Rightarrow> string \<Rightarrow> string list" where
  "split_acc cur [] = (if cur = [] then [] else [cur])"
| "split_acc cur (c # cs) =
     (if is_space c then (if cur = [] then split_acc [] cs else cur # split_acc [] cs)
      else split_acc (cur @ [c]) cs)"

definition split_ws :: "string \<Rightarrow> string list" where
  \<comment> \<open>\<open>s.split()\<close>: the maximal runs of non-whitespace characters\<close>
  "split_ws s = split_acc [] s"

fun join :: "string \<Rightarrow> string list \<Rightarrow> string" where
  "join sep [] = []"
| "join sep [x] = x"
| "join sep (x # y # ys) = x @ sep @ join sep (y # ys)"

subsection \<open>Formatting integers: \<open>str(n)\<close>, \<open>{n:02d}\<close>, \<open>{n:02X}\<close>\<close>

definition digit_char :: "nat \<Rightarrow> char" where
  "digit_char d = ''0123456789ABCDEF'' ! d"

fun digits_of :: "nat \<Rightarrow> nat \<Rightarrow> string" where
  "digits_of b n =
     (if b < 2 \<or> n < b then [digit_char n]
      else digits_of b (n div b) @ [digit_char (n mod b)])"

declare digits_of.simps [simp del]

definition zero_pad :: "nat \<Rightarrow> string \<Rightarrow> string" where
  "zero_pad w s = replicate (w - length s) CHR ''0'' @ s"

definition str_int :: "int \<Rightarrow> string" where
  \<comment> \<open>\<open>str(n)\<close>, also \<open>f"{n}"\<close>\<close>
  "str_int n = (if n < 0 then CHR ''-'' # digits_of 10 (nat (- n)) else digits_of 10 (nat n))"

definition format_pad2 :: "nat \<Rightarrow> int \<Rightarrow> string" where
  \<comment> \<open>the format specs \<open>02d\<close> (base 10) and \<open>02X\<close> (base 16): the sign counts in the width\<close>
  "format_pad2 b n =
     (if n < 0 then CHR ''-'' # zero_pad 1 (digits_of b (nat (- n)))
      else zero_pad 2 (digits_of b (nat n)))"

definition format_02d :: "int \<Rightarrow> string" where
  "format_02d n = format_pad2 10 n"

definition format_02X :: "int \<Rightarrow> string" where
  "format_02X n = format_pad2 16 n"

subsection \<open>Parsing: \<open>int(s, 16)\<close>\<close>

definition hex_digit_val :: "char \<Rightarrow> nat option" where
  "hex_digit_val c =
     (let n = (of_char c :: nat) in
      if 48 \<le> n \<and> n \<le> 57 then Some (n - 48)
      else if 97 \<le> n \<and> n \<le> 102 then Some (n - 87)
      else if 65 \<le> n \<and> n \<le> 70 then Some (n - 55)
      else None)"

definition is_int_space :: "char \<Rightarrow> bool" where
  \<comment> \<open>the whitespace \<open>int()\<close> skips at both ends of its argument\<close>
  "is_int_space c = (c \<in> set [CHR 0x09, CHR 0x0A, CHR 0x0B, CHR 0x0C, CHR 0x0D, CHR 0x20,
                               CHR 0x85, CHR 0xA0])"

fun parse_hex_body :: "bool \<Rightarrow> nat \<Rightarrow> string \<Rightarrow> nat option" where
  \<comment> \<open>digits with single underscores between them; the flag says that a digit was just read\<close>
  "parse_hex_body prev acc [] = (if prev then Some acc else None)"
| "parse_hex_body prev acc (c # cs) =
     (if c = CHR ''_'' then (if prev then parse_hex_body False acc cs else None)
      else (case hex_digit_val c of
              None \<Rightarrow> None
            | Some d \<Rightarrow> parse_hex_body True (16 * acc + d) cs))"

definition int16 :: "string \<Rightarrow> error + int" where
  "int16 s =
     (let t = rev (dropWhile is_int_space (rev (dropWhile is_int_space s)));
          neg = (t \<noteq> [] \<and> hd t = CHR ''-'');
          u = (if t \<noteq> [] \<and> (hd t = CHR ''-'' \<or> hd t = CHR ''+'') then tl t else t);
          v = (case u of
                 a # b # r \<Rightarrow>
                   if a = CHR ''0'' \<and> (b = CHR ''x'' \<or> b = CHR ''X'')
                   then (case r of c # r' \<Rightarrow> if c = CHR ''_'' then r' else r | [] \<Rightarrow> r)
                   else u
               | _ \<Rightarrow> u)
      in case parse_hex_body False 0 v of
           None \<Rightarrow> Inl (InvalidLiteral s)
         | Some n \<Rightarrow> Inr (if neg then - int n else int n))"

subsection \<open>Doubles: rounding and the operators \<open>+\<close>, \<open>-\<close>, \<open>*\<close>, \<open>/\<close>, \<open>//\<close>, \<open>%\<close>, \<open>int(x)\<close>\<close>

definition ilog2 :: "rat \<Rightarrow> int" where
  \<comment> \<open>for a positive \<open>x\<close>, the exponent \<open>e\<close> with \<open>2 ^ e \<le> x < 2 ^ (e + 1)\<close>\<close>
  "ilog2 x = (let e0 = bitlen (fst (quotient_of x)) - bitlen (snd (quotient_of x))
              in if 2 powi e0 \<le> x then e0 else e0 - 1)"

definition round_half_even :: "rat \<Rightarrow> int" where
  "round_half_even y =
     (let f = \<lfloor>y\<rfloor>; d = y - of_int f
      in if d < 1 / 2 then f else if 1 / 2 < d then f + 1 else if even f then f else f + 1)"

definition ulp_exp :: "rat \<Rightarrow> int" where
  \<comment> \<open>the exponent of the spacing of the doubles around \<open>x\<close>: 53 significant bits, and the
      spacing \<open>2 ^ - 1074\<close> of the subnormal numbers at the least\<close>
  "ulp_exp x = max (- 1074) (ilog2 \<bar>x\<bar> - 52)"

definition rnd :: "rat \<Rightarrow> rat" where
  \<comment> \<open>the double nearest to \<open>x\<close>, ties to even\<close>
  "rnd x = (if x = 0 then 0
            else of_int (round_half_even (x / 2 powi ulp_exp x)) * 2 powi ulp_exp x)"

definition fadd :: "seconds \<Rightarrow> seconds \<Rightarrow> seconds" where
  "fadd x y = rnd (x + y)"

definition fsub :: "seconds \<Rightarrow> seconds \<Rightarrow> seconds" where
  "fsub x y = rnd (x - y)"

definition fmul :: "seconds \<Rightarrow> seconds \<Rightarrow> seconds" where
  "fmul x y = rnd (x * y)"

definition fdiv :: "seconds \<Rightarrow> seconds \<Rightarrow> seconds" where
  \<comment> \<open>\<open>x / y\<close> for a divisor other than zero; also the true division of two \<open>int\<close>s, which
      is correctly rounded\<close>
  "fdiv x y = rnd (x / y)"

definition py_int :: "seconds \<Rightarrow> int" where
  \<comment> \<open>\<open>int(x)\<close> truncates towards zero\<close>
  "py_int x = (if x < 0 then \<lceil>x\<rceil> else \<lfloor>x\<rfloor>)"

definition c_fmod :: "seconds \<Rightarrow> seconds \<Rightarrow> seconds" where
  \<comment> \<open>C's \<open>fmod\<close>, which is exact: the remainder has the sign of \<open>x\<close>\<close>
  "c_fmod x y = x - y * of_int (py_int (x / y))"

definition py_mod :: "seconds \<Rightarrow> seconds \<Rightarrow> seconds" where
  \<comment> \<open>\<open>vx % wx\<close> on floats, as CPython's \<open>float_rem\<close> computes it\<close>
  "py_mod vx wx =
     (let m = c_fmod vx wx
      in if m \<noteq> 0 then (if (wx < 0) \<noteq> (m < 0) then fadd m wx else m) else 0)"

definition py_floordiv :: "seconds \<Rightarrow> seconds \<Rightarrow> seconds" where
  \<comment> \<open>\<open>vx // wx\<close> on floats, as CPython's \<open>float_floor_div\<close> computes it\<close>
  "py_floordiv vx wx =
     (let m = c_fmod vx wx;
          d = fdiv (fsub vx m) wx;
          d = (if m \<noteq> 0 \<and> (wx < 0) \<noteq> (m < 0) then fsub d 1 else d)
      in if d \<noteq> 0
         then (let fl = of_int \<lfloor>d\<rfloor> in if 1 / 2 < fsub d fl then fadd fl 1 else fl)
         else 0)"

subsection \<open>Dictionaries and optional keys\<close>

definition dict_get :: "('k \<rightharpoonup> 'v) \<Rightarrow> 'k \<Rightarrow> 'v \<Rightarrow> 'v" where
  \<comment> \<open>\<open>d.get(k, default)\<close> on a dictionary literal\<close>
  "dict_get d k dflt = (case d k of None \<Rightarrow> dflt | Some v \<Rightarrow> v)"

definition opt_get :: "'v option \<Rightarrow> 'v \<Rightarrow> 'v" where
  \<comment> \<open>\<open>d.get(k, default)\<close> where the entry of key \<open>k\<close> is a field that may be absent\<close>
  "opt_get entry dflt = (case entry of None \<Rightarrow> dflt | Some v \<Rightarrow> v)"

definition bs :: string where
  \<comment> \<open>the backslash that opens an override tag\<close>
  "bs = [CHR 0x5C]"

definition nl :: string where
  \<comment> \<open>the line feed\<close>
  "nl = [CHR 0x0A]"

section \<open>effects.py\<close>

subsection \<open>\<open>hex_to_ass_color\<close>\<close>

definition hex_to_ass_color :: "string \<Rightarrow> error + string" where
  "hex_to_ass_color hex_color0 =
     (let hex_color = lstrip_chars CHR ''#'' hex_color0 in
      if length hex_color = 6 then
        (case int16 (take 2 hex_color) of Inl e \<Rightarrow> Inl e | Inr r \<Rightarrow>
        (case int16 (take 2 (drop 2 hex_color)) of Inl e \<Rightarrow> Inl e | Inr g \<Rightarrow>
        (case int16 (take 2 (drop 4 hex_color)) of Inl e \<Rightarrow> Inl e | Inr b \<Rightarrow>
           Inr (''&H'' @ format_02X 0 @ format_02X b @ format_02X g @ format_02X r))))
      else if length hex_color = 8 then
        (case int16 (take 2 hex_color) of Inl e \<Rightarrow> Inl e | Inr r \<Rightarrow>
        (case int16 (take 2 (drop 2 hex_color)) of Inl e \<Rightarrow> Inl e | Inr g \<Rightarrow>
        (case int16 (take 2 (drop 4 hex_color)) of Inl e \<Rightarrow> Inl e | Inr b \<Rightarrow>
        (case int16 (take 2 (drop 6 hex_color)) of Inl e \<Rightarrow> Inl e | Inr a \<Rightarrow>
           Inr (''&H'' @ format_02X (255 - a) @ format_02X b @ format_02X g @ format_02X r)))))
      else Inl (InvalidHexColor hex_color))"

subsection \<open>\<open>get_alignment_code\<close>\<close>

definition align_map :: "string \<rightharpoonup> int" where
  "align_map = [''left'' \<mapsto> 0, ''center'' \<mapsto> 1, ''right'' \<mapsto> 2]"

definition pos_base :: "string \<rightharpoonup> int" where
  "pos_base = [''bottom'' \<mapsto> 1, ''center'' \<mapsto> 4, ''top'' \<mapsto> 7, ''custom'' \<mapsto> 1]"

definition get_alignment_code :: "string \<Rightarrow> string \<Rightarrow> int" where
  "get_alignment_code position align = dict_get pos_base position 1 + dict_get align_map align 1"

subsection \<open>\<open>chunk_words\<close>\<close>

fun chunk_loop :: "int \<Rightarrow> 'a list list \<Rightarrow> 'a list \<Rightarrow> 'a list \<Rightarrow> 'a list list" where
  \<comment> \<open>the \<open>for\<close> loop and the statements after it; the state is \<open>chunks\<close>, \<open>current_chunk\<close>\<close>
  "chunk_loop max_words chunks current_chunk [] =
     (if current_chunk \<noteq> [] then chunks @ [current_chunk] else chunks)"
| "chunk_loop max_words chunks current_chunk (word # words) =
     (let current_chunk = current_chunk @ [word] in
      if int (length current_chunk) \<ge> max_words
      then chunk_loop max_words (chunks @ [current_chunk]) [] words
      else chunk_loop max_words chunks current_chunk words)"

definition chunk_words :: "'a list \<Rightarrow> int \<Rightarrow> 'a list list" where
  "chunk_words words max_words = chunk_loop max_words [] [] words"

subsection \<open>Animation tags\<close>

definition get_fade_effect :: "int \<Rightarrow> int \<Rightarrow> string" where
  "get_fade_effect entry_ms exit_ms =
     bs @ ''fad('' @ str_int entry_ms @ '','' @ str_int exit_ms @ '')''"

definition get_pop_in_effect :: "int \<Rightarrow> string" where
  "get_pop_in_effect duration =
     bs @ ''fscx50'' @ bs @ ''fscy50'' @ bs @ ''t(0,'' @ str_int duration @ '','' @ bs
     @ ''fscx100'' @ bs @ ''fscy100)''"

definition get_pop_out_effect :: "int \<Rightarrow> int \<Rightarrow> string" where
  "get_pop_out_effect start_time duration =
     bs @ ''t('' @ str_int start_time @ '','' @ str_int (start_time + duration) @ '','' @ bs
     @ ''fscx50'' @ bs @ ''fscy50'' @ bs @ ''alpha&HFF&)''"

definition get_bounce_effect :: "int \<Rightarrow> string" where
  "get_bounce_effect duration =
     (let t1 = duration div 3;
          t2 = (duration * 2) div 3
      in bs @ ''fscx80'' @ bs @ ''fscy80''
         @ bs @ ''t(0,'' @ str_int t1 @ '','' @ bs @ ''fscx110'' @ bs @ ''fscy110)''
         @ bs @ ''t('' @ str_int t1 @ '','' @ str_int t2 @ '','' @ bs @ ''fscx95'' @ bs
         @ ''fscy95)''
         @ bs @ ''t('' @ str_int t2 @ '','' @ str_int duration @ '','' @ bs @ ''fscx100'' @ bs
         @ ''fscy100)'')"

definition entry_effects :: "int \<Rightarrow> (string \<rightharpoonup> string)" where
  \<comment> \<open>the dictionary \<open>effects\<close> of \<open>get_entry_effect\<close>\<close>
  "entry_effects duration =
     [''none'' \<mapsto> [],
      ''fade'' \<mapsto> get_fade_effect duration 0,
      ''pop'' \<mapsto> get_pop_in_effect duration,
      ''slide_up'' \<mapsto> bs @ ''fad('' @ str_int duration @ '',0)'',
      ''slide_down'' \<mapsto> bs @ ''fad('' @ str_int duration @ '',0)'',
      ''bounce'' \<mapsto> get_bounce_effect duration]"

definition get_entry_effect :: "string \<Rightarrow> int \<Rightarrow> string" where
  "get_entry_effect effect_name duration = dict_get (entry_effects duration) effect_name []"

definition exit_effects :: "int \<Rightarrow> int \<Rightarrow> (string \<rightharpoonup> string)" where
  \<comment> \<open>the dictionary \<open>effects\<close> of \<open>get_exit_effect\<close>\<close>
  "exit_effects duration start =
     [''none'' \<mapsto> [],
      ''fade'' \<mapsto> get_fade_effect 0 duration,
      ''pop'' \<mapsto> get_pop_out_effect start duration,
      ''slide_up'' \<mapsto> bs @ ''fad(0,'' @ str_int duration @ '')'',
      ''slide_down'' \<mapsto> bs @ ''fad(0,'' @ str_int duration @ '')'',
      ''bounce'' \<mapsto> bs @ ''fad(0,'' @ str_int duration @ '')'']"

definition get_exit_effect :: "string \<Rightarrow> int \<Rightarrow> int \<Rightarrow> string" where
  "get_exit_effect effect_name duration total_duration =
     (let start = total_duration - duration
      in dict_get (exit_effects duration start) effect_name [])"

subsection \<open>\<open>format_time_ass\<close>\<close>

definition format_time_ass :: "seconds \<Rightarrow> string" where
  "format_time_ass seconds =
     (let hours = py_int (py_floordiv seconds 3600);
          minutes = py_int (py_floordiv (py_mod seconds 3600) 60);
          secs = py_int (py_mod seconds 60);
          centiseconds = py_int (fmul (py_mod seconds 1) 100)
      in str_int hours @ '':'' @ format_02d minutes @ '':'' @ format_02d secs @ ''.''
         @ format_02d centiseconds)"

subsection \<open>\<open>calculate_word_timings\<close>\<close>

text \<open>
  A Whisper segment is a dictionary; each of its keys may be absent. An entry of its
  \<open>words\<close> list is a dictionary with the optional keys \<open>word\<close>, \<open>start\<close>, \<open>end\<close>.
\<close>

record word_entry =
  we_word :: "string option"
  we_start :: "seconds option"
  we_end :: "seconds option"

record segment =
  seg_start :: "seconds option"
  seg_end :: "seconds option"
  seg_text :: "string option"
  seg_words :: "word_entry list option"

text \<open>The dictionaries with the keys \<open>word\<close>, \<open>start\<close>, \<open>end\<close> that the function returns.\<close>

record word_timing =
  wt_word :: string
  wt_start :: seconds
  wt_end :: seconds

fun estimate_loop ::
  "nat \<Rightarrow> nat \<Rightarrow> seconds \<Rightarrow> seconds \<Rightarrow> string list \<Rightarrow> word_timing list" where
  \<comment> \<open>the \<open>for word in words\<close> loop; the state is \<open>current_time\<close>, the result \<open>word_timings\<close>\<close>
  "estimate_loop total_chars n_words segment_duration current_time [] = []"
| "estimate_loop total_chars n_words segment_duration current_time (word # rest) =
     (let word_duration =
            (if total_chars > 0
             then fmul (fdiv (of_nat (length word)) (of_nat total_chars)) segment_duration
             else fdiv segment_duration (rnd (of_nat n_words)))
      in \<lparr>wt_word = word, wt_start = current_time,
          wt_end = fadd current_time word_duration\<rparr>
         # estimate_loop total_chars n_words segment_duration (fadd current_time word_duration)
             rest)"

definition estimate_from_text :: "segment \<Rightarrow> word_timing list" where
  \<comment> \<open>the statements after the \<open>if "words" in segment\<close>: the estimate from the text\<close>
  "estimate_from_text segment =
     (let text = strip (opt_get (seg_text segment) []);
          words = split_ws text
      in if words = [] then []
         else
           (let segment_start = opt_get (seg_start segment) 0;
                segment_end = opt_get (seg_end segment) 0;
                segment_duration = fsub segment_end segment_start;
                total_chars = sum_list (map length words)
            in estimate_loop total_chars (length words) segment_duration segment_start
                 words))"

definition calculate_word_timings :: "segment \<Rightarrow> word_timing list" where
  "calculate_word_timings segment =
     (case seg_words segment of
        Some ws \<Rightarrow>
          map (\<lambda>w. \<lparr>wt_word = strip (opt_get (we_word w) []),
                     wt_start = opt_get (we_start w) 0,
                     wt_end = opt_get (we_end w) 0\<rparr>)
              (filter (\<lambda>w. strip (opt_get (we_word w) []) \<noteq> []) ws)
      | None \<Rightarrow> estimate_from_text segment)"

section \<open>theme\_config.py\<close>

text \<open>
  The dataclasses, with every field at its declared type. Field names carry the name of
  their class, since several classes have a field \<open>enabled\<close> or \<open>style\<close>.
\<close>

record font_config =
  font_family :: string
  font_size :: int
  font_weight :: string
  font_style :: string

record color_config =
  color_primary :: string
  color_highlight :: string
  color_background :: string
  color_outline :: string
  color_shadow :: string

record highlight_config =
  hl_enabled :: bool
  hl_mode :: string
  hl_style :: string
  hl_transition :: string

record layout_config =
  layout_position :: string
  layout_custom_y :: "rat option"
  layout_max_words_per_line :: int
  layout_alignment :: string
  layout_margin_x :: int
  layout_margin_y :: int

record background_config =
  bg_enabled :: bool
  bg_style :: string
  bg_padding :: int
  bg_border_radius :: int
  bg_opacity :: rat

record outline_effect =
  outline_enabled :: bool
  outline_width :: int

record shadow_effect =
  shadow_enabled :: bool
  shadow_offset_x :: int
  shadow_offset_y :: int
  shadow_blur :: int

record effects_config =
  effects_outline :: outline_effect
  effects_shadow :: shadow_effect

record animation_config =
  anim_entry :: string
  anim_exit :: string
  anim_duration :: int
  anim_word_stagger :: int

record subtitle_theme_config =
  theme_name :: string
  theme_version :: string
  theme_font :: font_config
  theme_colors :: color_config
  theme_highlight :: highlight_config
  theme_layout :: layout_config
  theme_background :: background_config
  theme_effects :: effects_config
  theme_animation :: animation_config

definition default_theme :: subtitle_theme_config where
  \<comment> \<open>\<open>SubtitleThemeConfig()\<close>: the field defaults of the dataclasses\<close>
  "default_theme =
     \<lparr>theme_name = ''default'',
      theme_version = ''1.0'',
      theme_font = \<lparr>font_family = ''Arial'', font_size = 72, font_weight = ''bold'',
                     font_style = ''normal''\<rparr>,
      theme_colors = \<lparr>color_primary = ''#FFFFFF'', color_highlight = ''#00FF88'',
                       color_background = ''#000000CC'', color_outline = ''#000000'',
                       color_shadow = ''#00000080''\<rparr>,
      theme_highlight = \<lparr>hl_enabled = True, hl_mode = ''word'', hl_style = ''color'',
                          hl_transition = ''instant''\<rparr>,
      theme_layout = \<lparr>layout_position = ''bottom'', layout_custom_y = None,
                       layout_max_words_per_line = 5, layout_alignment = ''center'',
                       layout_margin_x = 50, layout_margin_y = 100\<rparr>,
      theme_background = \<lparr>bg_enabled = True, bg_style = ''single'', bg_padding = 20,
                           bg_border_radius = 15, bg_opacity = rnd (8 / 10)\<rparr>,
      theme_effects = \<lparr>effects_outline = \<lparr>outline_enabled = True, outline_width = 3\<rparr>,
                        effects_shadow = \<lparr>shadow_enabled = False, shadow_offset_x = 4,
                                          shadow_offset_y = 4, shadow_blur = 2\<rparr>\<rparr>,
      theme_animation = \<lparr>anim_entry = ''pop'', anim_exit = ''fade'', anim_duration = 200,
                          anim_word_stagger = 50\<rparr>\<rparr>"

text \<open>
  The structured document read by \<open>from_dict\<close> and written by \<open>to_dict\<close>: a dictionary
  of dictionaries in which every key may be absent, with the values at the types the
  dataclasses declare. The key \<open>custom_y\<close> may be present with the value \<open>None\<close>.
\<close>

record font_doc =
  fd_family :: "string option"
  fd_size :: "int option"
  fd_weight :: "string option"
  fd_style :: "string option"

record colors_doc =
  cd_primary :: "string option"
  cd_highlight :: "string option"
  cd_background :: "string option"
  cd_outline :: "string option"
  cd_shadow :: "string option"

record highlight_doc =
  hd_enabled :: "bool option"
  hd_mode :: "string option"
  hd_style :: "string option"
  hd_transition :: "string option"

record layout_doc =
  ld_position :: "string option"
  ld_custom_y :: "rat option option"
  ld_max_words_per_line :: "int option"
  ld_alignment :: "string option"
  ld_margin_x :: "int option"
  ld_margin_y :: "int option"

record background_doc =
  bd_enabled :: "bool option"
  bd_style :: "string option"
  bd_padding :: "int option"
  bd_border_radius :: "int option"
  bd_opacity :: "rat option"

record outline_doc =
  od_enabled :: "bool option"
  od_width :: "int option"

record shadow_doc =
  sd_enabled :: "bool option"
  sd_offset_x :: "int option"
  sd_offset_y :: "int option"
  sd_blur :: "int option"

record effects_doc =
  ed_outline :: "outline_doc option"
  ed_shadow :: "shadow_doc option"

record animation_doc =
  ad_entry :: "string option"
  ad_exit :: "string option"
  ad_duration :: "int option"
  ad_word_stagger :: "int option"

record theme_doc =
  td_name :: "string option"
  td_version :: "string option"
  td_font :: "font_doc option"
  td_colors :: "colors_doc option"
  td_highlight :: "highlight_doc option"
  td_layout :: "layout_doc option"
  td_background :: "background_doc option"
  td_effects :: "effects_doc option"
  td_animation :: "animation_doc option"

definition empty_outline_doc :: outline_doc where
  \<comment> \<open>the \<open>{}\<close> of \<open>effects_data.get("outline", {})\<close>\<close>
  "empty_outline_doc = \<lparr>od_enabled = None, od_width = None\<rparr>"

definition empty_shadow_doc :: shadow_doc where
  \<comment> \<open>the \<open>{}\<close> of \<open>effects_data.get("shadow", {})\<close>\<close>
  "empty_shadow_doc =
     \<lparr>sd_enabled = None, sd_offset_x = None, sd_offset_y = None, sd_blur = None\<rparr>"

definition from_dict :: "theme_doc option \<Rightarrow> subtitle_theme_config" where
  "from_dict data0 =
     (let config = default_theme in
      case data0 of
        None \<Rightarrow> config
      | Some data \<Rightarrow>
         (let config = config\<lparr>theme_name := opt_get (td_name data) (theme_name config)\<rparr>;
              config = config\<lparr>theme_version := opt_get (td_version data) (theme_version config)\<rparr>;
              config =
                (case td_font data of
                   None \<Rightarrow> config
                 | Some font_data \<Rightarrow> config\<lparr>theme_font :=
                     \<lparr>font_family = opt_get (fd_family font_data) (font_family (theme_font config)),
                      font_size = opt_get (fd_size font_data) (font_size (theme_font config)),
                      font_weight = opt_get (fd_weight font_data) (font_weight (theme_font config)),
                      font_style = opt_get (fd_style font_data) (font_style (theme_font config))\<rparr>\<rparr>);
              config =
                (case td_colors data of
                   None \<Rightarrow> config
                 | Some colors_data \<Rightarrow> config\<lparr>theme_colors :=
                     \<lparr>color_primary =
                        opt_get (cd_primary colors_data) (color_primary (theme_colors config)),
                      color_highlight =
                        opt_get (cd_highlight colors_data) (color_highlight (theme_colors config)),
                      color_background =
                        opt_get (cd_background colors_data) (color_background (theme_colors config)),
                      color_outline =
                        opt_get (cd_outline colors_data) (color_outline (theme_colors config)),
                      color_shadow =
                        opt_get (cd_shadow colors_data) (color_shadow (theme_colors config))\<rparr>\<rparr>);
              config =
                (case td_highlight data of
                   None \<Rightarrow> config
                 | Some hl_data \<Rightarrow> config\<lparr>theme_highlight :=
                     \<lparr>hl_enabled = opt_get (hd_enabled hl_data) (hl_enabled (theme_highlight config)),
                      hl_mode = opt_get (hd_mode hl_data) (hl_mode (theme_highlight config)),
                      hl_style = opt_get (hd_style hl_data) (hl_style (theme_highlight config)),
                      hl_transition =
                        opt_get (hd_transition hl_data) (hl_transition (theme_highlight config))\<rparr>\<rparr>);
              config =
                (case td_layout data of
                   None \<Rightarrow> config
                 | Some layout_data \<Rightarrow> config\<lparr>theme_layout :=
                     \<lparr>layout_position =
                        opt_get (ld_position layout_data) (layout_position (theme_layout config)),
                      layout_custom_y =
                        opt_get (ld_custom_y layout_data) (layout_custom_y (theme_layout config)),
                      layout_max_words_per_line =
                        opt_get (ld_max_words_per_line layout_data)
                          (layout_max_words_per_line (theme_layout config)),
                      layout_alignment =
                        opt_get (ld_alignment layout_data) (layout_alignment (theme_layout config)),
                      layout_margin_x =
                        opt_get (ld_margin_x layout_data) (layout_margin_x (theme_layout config)),
                      layout_margin_y =
                        opt_get (ld_margin_y layout_data) (layout_margin_y (theme_layout config))\<rparr>\<rparr>);
              config =
                (case td_background data of
                   None \<Rightarrow> config
                 | Some bg_data \<Rightarrow> config\<lparr>theme_background :=
                     \<lparr>bg_enabled = opt_get (bd_enabled bg_data) (bg_enabled (theme_background config)),
                      bg_style = opt_get (bd_style bg_data) (bg_style (theme_background config)),
                      bg_padding = opt_get (bd_padding bg_data) (bg_padding (theme_background config)),
                      bg_border_radius =
                        opt_get (bd_border_radius bg_data) (bg_border_radius (theme_background config)),
                      bg_opacity =
                        opt_get (bd_opacity bg_data) (bg_opacity (theme_background config))\<rparr>\<rparr>);
              config =
                (case td_effects data of
                   None \<Rightarrow> config
                 | Some effects_data \<Rightarrow>
                    (let outline_data = opt_get (ed_outline effects_data) empty_outline_doc;
                         shadow_data = opt_get (ed_shadow effects_data) empty_shadow_doc
                     in config\<lparr>theme_effects :=
                          \<lparr>effects_outline =
                             \<lparr>outline_enabled =
                                opt_get (od_enabled outline_data)
                                  (outline_enabled (effects_outline (theme_effects config))),
                              outline_width =
                                opt_get (od_width outline_data)
                                  (outline_width (effects_outline (theme_effects config)))\<rparr>,
                           effects_shadow =
                             \<lparr>shadow_enabled =
                                opt_get (sd_enabled shadow_data)
                                  (shadow_enabled (effects_shadow (theme_effects config))),
                              shadow_offset_x =
                                opt_get (sd_offset_x shadow_data)
                                  (shadow_offset_x (effects_shadow (theme_effects config))),
                              shadow_offset_y =
                                opt_get (sd_offset_y shadow_data)
                                  (shadow_offset_y (effects_shadow (theme_effects config))),
                              shadow_blur =
                                opt_get (sd_blur shadow_data)
                                  (shadow_blur (effects_shadow (theme_effects config)))\<rparr>\<rparr>\<rparr>));
              config =
                (case td_animation data of
                   None \<Rightarrow> config
                 | Some anim_data \<Rightarrow> config\<lparr>theme_animation :=
                     \<lparr>anim_entry = opt_get (ad_entry anim_data) (anim_entry (theme_animation config)),
                      anim_exit = opt_get (ad_exit anim_data) (anim_exit (theme_animation config)),
                      anim_duration =
                        opt_get (ad_duration anim_data) (anim_duration (theme_animation config)),
                      anim_word_stagger =
                        opt_get (ad_word_stagger anim_data)
                          (anim_word_stagger (theme_animation config))\<rparr>\<rparr>)
          in config))"

definition to_dict :: "subtitle_theme_config \<Rightarrow> theme_doc" where
  "to_dict self =
     \<lparr>td_name = Some (theme_name self),
      td_version = Some (theme_version self),
      td_font = Some
        \<lparr>fd_family = Some (font_family (theme_font self)),
         fd_size = Some (font_size (theme_font self)),
         fd_weight = Some (font_weight (theme_font self)),
         fd_style = Some (font_style (theme_font self))\<rparr>,
      td_colors = Some
        \<lparr>cd_primary = Some (color_primary (theme_colors self)),
         cd_highlight = Some (color_highlight (theme_colors self)),
         cd_background = Some (color_background (theme_colors self)),
         cd_outline = Some (color_outline (theme_colors self)),
         cd_shadow = Some (color_shadow (theme_colors self))\<rparr>,
      td_highlight = Some
        \<lparr>hd_enabled = Some (hl_enabled (theme_highlight self)),
         hd_mode = Some (hl_mode (theme_highlight self)),
         hd_style = Some (hl_style (theme_highlight self)),
         hd_transition = Some (hl_transition (theme_highlight self))\<rparr>,
      td_layout = Some
        \<lparr>ld_position = Some (layout_position (theme_layout self)),
         ld_custom_y = Some (layout_custom_y (theme_layout self)),
         ld_max_words_per_line = Some (layout_max_words_per_line (theme_layout self)),
         ld_alignment = Some (layout_alignment (theme_layout self)),
         ld_margin_x = Some (layout_margin_x (theme_layout self)),
         ld_margin_y = Some (layout_margin_y (theme_layout self))\<rparr>,
      td_background = Some
        \<lparr>bd_enabled = Some (bg_enabled (theme_background self)),
         bd_style = Some (bg_style (theme_background self)),
         bd_padding = Some (bg_padding (theme_background self)),
         bd_border_radius = Some (bg_border_radius (theme_background self)),
         bd_opacity = Some (bg_opacity (theme_background self))\<rparr>,
      td_effects = Some
        \<lparr>ed_outline = Some
           \<lparr>od_enabled = Some (outline_enabled (effects_outline (theme_effects self))),
            od_width = Some (outline_width (effects_outline (theme_effects self)))\<rparr>,
         ed_shadow = Some
           \<lparr>sd_enabled = Some (shadow_enabled (effects_shadow (theme_effects self))),
            sd_offset_x = Some (shadow_offset_x (effects_shadow (theme_effects self))),
            sd_offset_y = Some (shadow_offset_y (effects_shadow (theme_effects self))),
            sd_blur = Some (shadow_blur (effects_shadow (theme_effects self)))\<rparr>\<rparr>,
      td_animation = Some
        \<lparr>ad_entry = Some (anim_entry (theme_animation self)),
         ad_exit = Some (anim_exit (theme_animation self)),
         ad_duration = Some (anim_duration (theme_animation self)),
         ad_word_stagger = Some (anim_word_stagger (theme_animation self))\<rparr>\<rparr>"

section \<open>subtitle\_renderer.py\<close>

record subtitle_renderer =
  theme :: subtitle_theme_config
  video_width :: int
  video_height :: int

definition init_renderer :: "subtitle_theme_config \<Rightarrow> int \<Rightarrow> int \<Rightarrow> subtitle_renderer" where
  \<comment> \<open>\<open>SubtitleRenderer(theme, video_width, video_height)\<close>\<close>
  "init_renderer theme0 video_width0 video_height0 =
     \<lparr>theme = theme0, video_width = video_width0, video_height = video_height0\<rparr>"

subsection \<open>\<open>generate_ass_header\<close>\<close>

definition header_margin_v :: "subtitle_renderer \<Rightarrow> int" where
  \<comment> \<open>the \<open>if\<close>/\<open>elif\<close> chain that computes \<open>margin_v\<close>\<close>
  "header_margin_v self =
     (let margin_v = layout_margin_y (theme_layout (theme self)) in
      if layout_position (theme_layout (theme self)) = ''top''
      then layout_margin_y (theme_layout (theme self))
      else if layout_position (theme_layout (theme self)) = ''center''
      then (video_height self div 2) - 100
      else (case layout_custom_y (theme_layout (theme self)) of
              Some custom_y \<Rightarrow>
                py_int (fdiv (fmul (rnd (of_int (video_height self))) custom_y) 100)
            | None \<Rightarrow> margin_v))"

definition style_fields :: "subtitle_renderer \<Rightarrow> string \<Rightarrow> string \<Rightarrow> string \<Rightarrow> string" where
  \<comment> \<open>the part of a \<open>Style:\<close> line after its primary colour, the same in both lines\<close>
  "style_fields self secondary_color outline_color back_color =
     (let bold = (if font_weight (theme_font (theme self)) = ''bold'' then - 1 else 0 :: int);
          italic = (if font_style (theme_font (theme self)) = ''italic'' then - 1 else 0 :: int);
          outline_width =
            (if outline_enabled (effects_outline (theme_effects (theme self)))
             then outline_width (effects_outline (theme_effects (theme self))) else 0);
          shadow_depth =
            (if shadow_enabled (effects_shadow (theme_effects (theme self)))
             then shadow_offset_x (effects_shadow (theme_effects (theme self))) else 0);
          border_style =
            (if bg_enabled (theme_background (theme self))
                \<and> bg_style (theme_background (theme self)) = ''single'' then 3 else 1 :: int);
          alignment =
            get_alignment_code (layout_position (theme_layout (theme self)))
              (layout_alignment (theme_layout (theme self)));
          margin_v = header_margin_v self
      in '','' @ secondary_color @ '','' @ outline_color @ '','' @ back_color
         @ '','' @ str_int bold @ '','' @ str_int italic @ '',0,0,100,100,0,0,''
         @ str_int border_style @ '','' @ str_int outline_width @ '','' @ str_int shadow_depth
         @ '','' @ str_int alignment
         @ '','' @ str_int (layout_margin_x (theme_layout (theme self)))
         @ '','' @ str_int (layout_margin_x (theme_layout (theme self)))
         @ '','' @ str_int margin_v @ '',1'')"

definition header_text ::
  "subtitle_renderer \<Rightarrow> string \<Rightarrow> string \<Rightarrow> string \<Rightarrow> string \<Rightarrow> string \<Rightarrow> string" where
  \<comment> \<open>the f-string \<open>header\<close>, given the converted colours\<close>
  "header_text self primary_color secondary_color outline_color back_color highlight_again =
     ''[Script Info]'' @ nl
     @ ''Title: '' @ theme_name (theme self) @ nl
     @ ''ScriptType: v4.00+'' @ nl
     @ ''WrapStyle: 0'' @ nl
     @ ''ScaledBorderAndShadow: yes'' @ nl
     @ ''YCbCr Matrix: TV.709'' @ nl
     @ ''PlayResX: '' @ str_int (video_width self) @ nl
     @ ''PlayResY: '' @ str_int (video_height self) @ nl
     @ nl
     @ ''[V4+ Styles]'' @ nl
     @ ''Format: Name, Fontname, Fontsize, PrimaryColour, SecondaryColour, OutlineColour, ''
     @ ''BackColour, Bold, Italic, Underline, StrikeOut, ScaleX, ScaleY, Spacing, Angle, ''
     @ ''BorderStyle, Outline, Shadow, Alignment, MarginL, MarginR, MarginV, Encoding'' @ nl
     @ ''Style: Default,'' @ font_family (theme_font (theme self)) @ '',''
     @ str_int (font_size (theme_font (theme self))) @ '','' @ primary_color
     @ style_fields self secondary_color outline_color back_color @ nl
     @ ''Style: Highlight,'' @ font_family (theme_font (theme self)) @ '',''
     @ str_int (font_size (theme_font (theme self))) @ '','' @ highlight_again
     @ style_fields self secondary_color outline_color back_color @ nl
     @ nl
     @ ''[Events]'' @ nl
     @ ''Format: Layer, Start, End, Style, Name, MarginL, MarginR, MarginV, Effect, Text'' @ nl"

definition generate_ass_header :: "subtitle_renderer \<Rightarrow> error + string" where
  "generate_ass_header self =
     (case hex_to_ass_color (color_primary (theme_colors (theme self))) of
        Inl e \<Rightarrow> Inl e | Inr primary_color \<Rightarrow>
     (case hex_to_ass_color (color_highlight (theme_colors (theme self))) of
        Inl e \<Rightarrow> Inl e | Inr secondary_color \<Rightarrow>
     (case hex_to_ass_color (color_outline (theme_colors (theme self))) of
        Inl e \<Rightarrow> Inl e | Inr outline_color \<Rightarrow>
     (case hex_to_ass_color (color_background (theme_colors (theme self))) of
        Inl e \<Rightarrow> Inl e | Inr back_color \<Rightarrow>
     (case hex_to_ass_color (color_highlight (theme_colors (theme self))) of
        Inl e \<Rightarrow> Inl e | Inr highlight_again \<Rightarrow>
          Inr (header_text self primary_color secondary_color outline_color back_color
                 highlight_again))))))"

subsection \<open>\<open>render_segment_simple\<close>\<close>

definition dialogue_line :: "string \<Rightarrow> string \<Rightarrow> string \<Rightarrow> string" where
  \<comment> \<open>the f-string of a \<open>Dialogue:\<close> line, shared by the three strategies\<close>
  "dialogue_line start_ass end_ass text =
     ''Dialogue: 0,'' @ start_ass @ '','' @ end_ass @ '',Default,,0,0,0,,'' @ text @ nl"

definition render_segment_simple :: "subtitle_renderer \<Rightarrow> segment \<Rightarrow> string" where
  "render_segment_simple self segment =
     (let start = format_time_ass (opt_get (seg_start segment) 0);
          end_t = format_time_ass (opt_get (seg_end segment) 0);
          text = strip (opt_get (seg_text segment) []);
          effects = [];
          duration_ms =
            py_int (fmul (fsub (opt_get (seg_end segment) 0) (opt_get (seg_start segment) 0)) 1000);
          effects =
            (if anim_entry (theme_animation (theme self)) \<noteq> ''none''
             then effects @ get_entry_effect (anim_entry (theme_animation (theme self)))
                              (anim_duration (theme_animation (theme self)))
             else effects);
          effects =
            (if anim_exit (theme_animation (theme self)) \<noteq> ''none''
             then effects @ get_exit_effect (anim_exit (theme_animation (theme self)))
                              (anim_duration (theme_animation (theme self))) duration_ms
             else effects);
          text = (if effects \<noteq> [] then ''{'' @ effects @ ''}'' @ text else text)
      in dialogue_line start end_t text)"

subsection \<open>\<open>render_segment_karaoke\<close>\<close>

definition karaoke_part :: "subtitle_renderer \<Rightarrow> seconds \<Rightarrow> word_timing \<Rightarrow> error + string" where
  \<comment> \<open>the body of the loop over the words of a chunk: the element appended to \<open>text_parts\<close>\<close>
  "karaoke_part self chunk_start word_info =
     (let word = wt_word word_info in
      if hl_enabled (theme_highlight (theme self)) then
        (let word_start_rel = py_int (fmul (fsub (wt_start word_info) chunk_start) 1000);
             word_end_rel = py_int (fmul (fsub (wt_end word_info) chunk_start) 1000)
         in case hex_to_ass_color (color_primary (theme_colors (theme self))) of
              Inl e \<Rightarrow> Inl e | Inr primary_color \<Rightarrow>
           (case hex_to_ass_color (color_highlight (theme_colors (theme self))) of
              Inl e \<Rightarrow> Inl e | Inr highlight_color \<Rightarrow>
             (let color_tags =
                    bs @ ''c'' @ primary_color
                    @ bs @ ''t('' @ str_int word_start_rel @ '','' @ str_int word_start_rel
                    @ '','' @ bs @ ''c'' @ highlight_color @ '')''
                    @ bs @ ''t('' @ str_int word_end_rel @ '','' @ str_int word_end_rel
                    @ '','' @ bs @ ''c'' @ primary_color @ '')''
              in Inr (''{'' @ color_tags @ ''}'' @ word))))
      else Inr word)"

fun collect_parts :: "('a \<Rightarrow> error + 'b) \<Rightarrow> 'a list \<Rightarrow> error + 'b list" where
  \<comment> \<open>a \<open>for\<close> loop that appends one element per item and stops at the first exception\<close>
  "collect_parts body [] = Inr []"
| "collect_parts body (x # xs) =
     (case body x of
        Inl e \<Rightarrow> Inl e
      | Inr part \<Rightarrow>
         (case collect_parts body xs of Inl e \<Rightarrow> Inl e | Inr parts \<Rightarrow> Inr (part # parts)))"

definition karaoke_preamble :: "subtitle_renderer \<Rightarrow> int \<Rightarrow> string" where
  \<comment> \<open>\<open>entry_effect\<close>, \<open>exit_effect\<close> and \<open>preamble\<close> of a chunk that lasts \<open>duration_ms\<close>\<close>
  "karaoke_preamble self duration_ms =
     (let entry_effect =
            (if anim_entry (theme_animation (theme self)) \<noteq> ''none''
             then get_entry_effect (anim_entry (theme_animation (theme self)))
                    (anim_duration (theme_animation (theme self)))
             else []);
          exit_effect =
            (if anim_exit (theme_animation (theme self)) \<noteq> ''none''
             then get_exit_effect (anim_exit (theme_animation (theme self)))
                    (anim_duration (theme_animation (theme self))) duration_ms
             else [])
      in if entry_effect \<noteq> [] \<or> exit_effect \<noteq> []
         then ''{'' @ entry_effect @ exit_effect @ ''}'' else [])"

definition karaoke_chunk_line :: "subtitle_renderer \<Rightarrow> word_timing list \<Rightarrow> error + string" where
  \<comment> \<open>the body of the loop over the chunks, for a chunk that is not empty\<close>
  "karaoke_chunk_line self chunk =
     (let chunk_start = wt_start (hd chunk);
          chunk_end = wt_end (last chunk);
          start_ass = format_time_ass chunk_start;
          end_ass = format_time_ass chunk_end;
          duration_ms = py_int (fmul (fsub chunk_end chunk_start) 1000);
          preamble = karaoke_preamble self duration_ms
      in case collect_parts (karaoke_part self chunk_start) chunk of
           Inl e \<Rightarrow> Inl e
         | Inr text_parts \<Rightarrow>
             Inr (dialogue_line start_ass end_ass (preamble @ join '' '' text_parts)))"

definition render_segment_karaoke :: "subtitle_renderer \<Rightarrow> segment \<Rightarrow> error + string" where
  "render_segment_karaoke self segment =
     (let word_timings = calculate_word_timings segment in
      if word_timings = [] then Inr (render_segment_simple self segment)
      else
        (let chunks = chunk_words word_timings
                        (layout_max_words_per_line (theme_layout (theme self)))
         in case collect_parts (karaoke_chunk_line self) (filter (\<lambda>chunk. chunk \<noteq> []) chunks) of
              Inl e \<Rightarrow> Inl e
            | Inr lines \<Rightarrow> Inr (concat lines)))"

subsection \<open>\<open>render_segment_per_word_background\<close>\<close>

definition per_word_part :: "subtitle_renderer \<Rightarrow> seconds \<Rightarrow> word_timing \<Rightarrow> error + string" where
  \<comment> \<open>the body of the loop over the words of a chunk: the element appended to \<open>text_parts\<close>\<close>
  "per_word_part self chunk_start word_info =
     (let word = wt_word word_info;
          word_start = wt_start word_info;
          word_end = wt_end word_info
      in case hex_to_ass_color (color_highlight (theme_colors (theme self))) of
           Inl e \<Rightarrow> Inl e | Inr highlight_color \<Rightarrow>
        (case hex_to_ass_color (color_primary (theme_colors (theme self))) of
           Inl e \<Rightarrow> Inl e | Inr primary_color \<Rightarrow>
          (let word_start_rel = py_int (fmul (fsub word_start chunk_start) 1000);
               word_end_rel = py_int (fmul (fsub word_end chunk_start) 1000);
               color_tags =
                 bs @ ''c'' @ primary_color
                 @ bs @ ''t('' @ str_int word_start_rel @ '','' @ str_int (word_start_rel + 50)
                 @ '','' @ bs @ ''c'' @ highlight_color @ '')''
                 @ bs @ ''t('' @ str_int word_end_rel @ '','' @ str_int (word_end_rel + 50)
                 @ '','' @ bs @ ''c'' @ primary_color @ '')''
           in Inr (''{'' @ color_tags @ ''}'' @ word))))"

definition per_word_preamble :: "subtitle_renderer \<Rightarrow> string" where
  \<comment> \<open>the \<open>preamble\<close> of a chunk: a fade for any entry or exit other than \<open>none\<close>\<close>
  "per_word_preamble self =
     (let preamble = [];
          preamble =
            (if anim_entry (theme_animation (theme self)) \<noteq> ''none''
             then preamble @ bs @ ''fad(''
                  @ str_int (anim_duration (theme_animation (theme self))) @ '',0)''
             else preamble);
          preamble =
            (if anim_exit (theme_animation (theme self)) \<noteq> ''none''
             then preamble @ bs @ ''fad(0,''
                  @ str_int (anim_duration (theme_animation (theme self))) @ '')''
             else preamble)
      in if preamble \<noteq> [] then ''{'' @ preamble @ ''}'' else preamble)"

definition per_word_chunk_line :: "subtitle_renderer \<Rightarrow> word_timing list \<Rightarrow> error + string" where
  \<comment> \<open>the body of the loop over the chunks, for a chunk that is not empty\<close>
  "per_word_chunk_line self chunk =
     (let chunk_start = wt_start (hd chunk);
          chunk_end = wt_end (last chunk);
          start_ass = format_time_ass chunk_start;
          end_ass = format_time_ass chunk_end
      in case collect_parts (per_word_part self chunk_start) chunk of
           Inl e \<Rightarrow> Inl e
         | Inr text_parts \<Rightarrow>
             Inr (dialogue_line start_ass end_ass
                    (per_word_preamble self @ join '' '' text_parts)))"

definition render_segment_per_word_background ::
  "subtitle_renderer \<Rightarrow> segment \<Rightarrow> error + string" where
  "render_segment_per_word_background self segment =
     (let word_timings = calculate_word_timings segment in
      if word_timings = [] then Inr (render_segment_simple self segment)
      else
        (let chunks = chunk_words word_timings
                        (layout_max_words_per_line (theme_layout (theme self)))
         in case collect_parts (per_word_chunk_line self) (filter (\<lambda>chunk. chunk \<noteq> []) chunks) of
              Inl e \<Rightarrow> Inl e
            | Inr lines \<Rightarrow> Inr (concat lines)))"

subsection \<open>\<open>render_segments\<close>\<close>

definition render_segment :: "subtitle_renderer \<Rightarrow> segment \<Rightarrow> error + string" where
  \<comment> \<open>the body of the loop over the segments: the text appended to \<open>ass_content\<close>\<close>
  "render_segment self segment =
     (if bg_style (theme_background (theme self)) = ''per_word''
      then render_segment_per_word_background self segment
      else if hl_enabled (theme_highlight (theme self))
      then render_segment_karaoke self segment
      else Inr (render_segment_simple self segment))"

definition render_segments :: "subtitle_renderer \<Rightarrow> segment list \<Rightarrow> error + string" where
  "render_segments self segments =
     (case generate_ass_header self of
        Inl e \<Rightarrow> Inl e
      | Inr ass_content \<Rightarrow>
         (case collect_parts (render_segment self) segments of
            Inl e \<Rightarrow> Inl e
          | Inr blocks \<Rightarrow> Inr (ass_content @ concat blocks)))"

section \<open>Vocabulary of the specification\<close>

subsection \<open>Hexadecimal colours\<close>

definition is_hex_digit :: "char \<Rightarrow> bool" where
  "is_hex_digit c = (c \<in> set ''0123456789abcdefABCDEF'')"

definition hex_byte :: "string \<Rightarrow> nat" where
  \<comment> \<open>the value of a channel written as two hexadecimal digits\<close>
  "hex_byte p = 16 * the (hex_digit_val (p ! 0)) + the (hex_digit_val (p ! 1))"

definition two_upper_hex :: "nat \<Rightarrow> string" where
  \<comment> \<open>a byte as exactly two upper-case hexadecimal digits\<close>
  "two_upper_hex n = [digit_char (n div 16), digit_char (n mod 16)]"

definition strip_one_hash :: "string \<Rightarrow> string" where
  \<comment> \<open>the string without its leading \<open>#\<close>, when it has one\<close>
  "strip_one_hash s = (case s of [] \<Rightarrow> [] | c # r \<Rightarrow> if c = CHR ''#'' then r else s)"

definition valid_hex_color :: "string \<Rightarrow> bool" where
  \<comment> \<open>six or eight hexadecimal digits after the leading \<open>#\<close>\<close>
  "valid_hex_color s =
     ((length (lstrip_chars CHR ''#'' s) = 6 \<or> length (lstrip_chars CHR ''#'' s) = 8)
      \<and> list_all is_hex_digit (lstrip_chars CHR ''#'' s))"

definition wrong_length :: "string \<Rightarrow> bool" where
  \<comment> \<open>neither six nor eight characters after the leading \<open>#\<close>\<close>
  "wrong_length s =
     (length (lstrip_chars CHR ''#'' s) \<noteq> 6 \<and> length (lstrip_chars CHR ''#'' s) \<noteq> 8)"

subsection \<open>Fields of a time stamp\<close>

definition is_double :: "seconds \<Rightarrow> bool" where
  \<comment> \<open>the rationals that are finite doubles: rounding leaves them as they are\<close>
  "is_double t = (rnd t = t)"

definition two_digits :: "nat \<Rightarrow> string" where
  \<comment> \<open>a number below 100 as exactly two decimal digits\<close>
  "two_digits n = [digit_char (n div 10), digit_char (n mod 10)]"

definition is_decimal_digit :: "char \<Rightarrow> bool" where
  "is_decimal_digit c = (c \<in> set ''0123456789'')"

definition decimal_value :: "string \<Rightarrow> nat" where
  \<comment> \<open>the number that a string of decimal digits denotes\<close>
  "decimal_value s = foldl (\<lambda>a c. 10 * a + (of_char c - 48)) 0 s"

subsection \<open>Colour transitions of a word\<close>

definition rel_ms :: "seconds \<Rightarrow> seconds \<Rightarrow> int" where
  \<comment> \<open>a time relative to the start of its chunk, in whole milliseconds, as the doubles
      give it: \<open>int((t - chunk_start) * 1000)\<close>\<close>
  "rel_ms chunk_start t = py_int (fmul (fsub t chunk_start) 1000)"

definition color_markup :: "string \<Rightarrow> string \<Rightarrow> int \<Rightarrow> int \<Rightarrow> int \<Rightarrow> string \<Rightarrow> string" where
  \<comment> \<open>primary colour, a transition to the highlight colour over \<open>window\<close> milliseconds from
      \<open>s\<close>, a transition back over \<open>window\<close> milliseconds from \<open>e\<close>, then the word\<close>
  "color_markup primary highlight window s e word =
     ''{'' @ bs @ ''c'' @ primary
     @ bs @ ''t('' @ str_int s @ '','' @ str_int (s + window) @ '','' @ bs @ ''c'' @ highlight @ '')''
     @ bs @ ''t('' @ str_int e @ '','' @ str_int (e + window) @ '','' @ bs @ ''c'' @ primary @ '')''
     @ ''}'' @ word"

definition word_level_event ::
  "(int \<Rightarrow> string) \<Rightarrow> int \<Rightarrow> string \<Rightarrow> string \<Rightarrow> word_timing list \<Rightarrow> string" where
  \<comment> \<open>the event of one chunk: it runs from the start of the first word to the end of the last,
      and every word carries its colour transitions, relative to the start of the chunk\<close>
  "word_level_event preamble window primary highlight chunk =
     ''Dialogue: 0,'' @ format_time_ass (wt_start (hd chunk)) @ '',''
     @ format_time_ass (wt_end (last chunk)) @ '',Default,,0,0,0,,''
     @ preamble (rel_ms (wt_start (hd chunk)) (wt_end (last chunk)))
     @ join '' ''
         (map (\<lambda>w. color_markup primary highlight window
                      (rel_ms (wt_start (hd chunk)) (wt_start w))
                      (rel_ms (wt_start (hd chunk)) (wt_end w)) (wt_word w))
              chunk)
     @ nl"

subsection \<open>Example inputs\<close>

definition example_segment :: segment where
  \<comment> \<open>the segment of the end-to-end example in the specification; 1.4 is the double nearest
      to 7 / 5\<close>
  "example_segment =
     \<lparr>seg_start = Some 1, seg_end = Some 2, seg_text = Some ''hi there'',
      seg_words = Some [\<lparr>we_word = Some ''hi'', we_start = Some 1, we_end = Some (rnd (7 / 5))\<rparr>,
                        \<lparr>we_word = Some ''there'', we_start = Some (rnd (7 / 5)), we_end = Some 2\<rparr>]\<rparr>"

definition per_word_theme :: subtitle_theme_config where
  \<comment> \<open>the defaults, with the background style \<open>per_word\<close>\<close>
  "per_word_theme =
     default_theme\<lparr>theme_background := (theme_background default_theme)\<lparr>bg_style := ''per_word''\<rparr>\<rparr>"

definition two_line_name_theme :: subtitle_theme_config where
  \<comment> \<open>the defaults, with a name of two lines\<close>
  "two_line_name_theme = default_theme\<lparr>theme_name := ''x'' @ nl @ ''Style: y''\<rparr>"

definition unknown_effects_theme :: subtitle_theme_config where
  \<comment> \<open>the defaults, with entry and exit effects outside the catalog\<close>
  "unknown_effects_theme =
     default_theme\<lparr>theme_animation :=
       (theme_animation default_theme)\<lparr>anim_entry := ''zoom'', anim_exit := ''spin''\<rparr>\<rparr>"

definition short_shadow_theme :: subtitle_theme_config where
  \<comment> \<open>the defaults, with a shadow colour of two digits\<close>
  "short_shadow_theme =
     default_theme\<lparr>theme_colors := (theme_colors default_theme)\<lparr>color_shadow := ''#12''\<rparr>\<rparr>"

subsection \<open>Lines of a document\<close>

fun lines_acc :: "string \<Rightarrow> string \<Rightarrow> string list" where
  "lines_acc cur [] = (if cur = [] then [] else [cur])"
| "lines_acc cur (c # cs) =
     (if c = CHR 0x0A then cur # lines_acc [] cs else lines_acc (cur @ [c]) cs)"

definition split_lines :: "string \<Rightarrow> string list" where
  \<comment> \<open>the lines of a text, each ended by a line feed (the last one possibly not)\<close>
  "split_lines s = lines_acc [] s"

definition style_lines :: "string \<Rightarrow> string list" where
  \<comment> \<open>the lines of a document that begin with \<open>Style: \<close>\<close>
  "style_lines doc = filter (prefix ''Style: '') (split_lines doc)"

subsection \<open>The word-timing estimator, as the specification words it\<close>

definition direct_timings :: "word_entry list \<Rightarrow> word_timing list" where
  \<comment> \<open>each entry mapped directly, entries whose trimmed word is empty dropped\<close>
  "direct_timings ws =
     map (\<lambda>w. \<lparr>wt_word = strip (opt_get (we_word w) []),
                wt_start = opt_get (we_start w) 0,
                wt_end = opt_get (we_end w) 0\<rparr>)
         (filter (\<lambda>w. strip (opt_get (we_word w) []) \<noteq> []) ws)"

definition estimate_as_claimed :: "segment \<Rightarrow> word_timing list" where
  \<comment> \<open>the claim: the \<open>words\<close> field is used only when it is present and not empty after
      trimming; otherwise the timings are estimated from the text\<close>
  "estimate_as_claimed segment =
     (case seg_words segment of
        Some ws \<Rightarrow>
          if direct_timings ws \<noteq> [] then direct_timings ws else estimate_from_text segment
      | None \<Rightarrow> estimate_from_text segment)"

subsection \<open>Greedy chunking, as the specification words it\<close>

fun greedy_chunks :: "nat \<Rightarrow> 'a list \<Rightarrow> 'a list list" where
  "greedy_chunks n xs =
     (if n = 0 \<or> xs = [] then [] else take n xs # greedy_chunks n (drop n xs))"

declare greedy_chunks.simps [simp del]

section \<open>Colour conversion\<close>

lemma hex_digit_val_hex: "is_hex_digit c \<Longrightarrow> \<exists>d<16. hex_digit_val c = Some d"
  unfolding is_hex_digit_def by (auto simp: hex_digit_val_def)

lemma hex_digit_not_special:
  "is_hex_digit c \<Longrightarrow> \<not> is_int_space c \<and> c \<noteq> CHR ''-'' \<and> c \<noteq> CHR ''+'' \<and> c \<noteq> CHR ''_''
      \<and> c \<noteq> CHR ''x'' \<and> c \<noteq> CHR ''X'' \<and> c \<noteq> CHR ''#''"
  unfolding is_hex_digit_def is_int_space_def by auto

lemma int16_hex_pair:
  assumes "is_hex_digit c" "is_hex_digit d"
  shows "int16 [c, d] = Inr (int (hex_byte [c, d]))"
proof -
  obtain x y where x: "hex_digit_val c = Some x" and y: "hex_digit_val d = Some y"
    using assms hex_digit_val_hex by blast
  note nc = hex_digit_not_special [OF assms(1)] and nd = hex_digit_not_special [OF assms(2)]
  show ?thesis
    using nc nd by (simp add: int16_def hex_byte_def x y)
qed

lemma hex_byte_bound: "is_hex_digit c \<Longrightarrow> is_hex_digit d \<Longrightarrow> hex_byte [c, d] < 256"
  using hex_digit_val_hex [of c] hex_digit_val_hex [of d] by (auto simp: hex_byte_def)

lemma format_02X_byte: "n < 256 \<Longrightarrow> format_02X (int n) = two_upper_hex n"
proof (cases "n < 16")
  case True
  then show ?thesis
    by (simp add: format_02X_def format_pad2_def digits_of.simps [of 16 n] zero_pad_def
        two_upper_hex_def digit_char_def)
next
  case False
  assume "n < 256"
  then have "n div 16 < 16" by simp
  with False show ?thesis
    by (simp add: format_02X_def format_pad2_def digits_of.simps [of 16 n]
        digits_of.simps [of 16 "n div 16"] zero_pad_def two_upper_hex_def)
qed

lemma list2: "length t = 2 \<Longrightarrow> \<exists>a b. t = [a, b]"
  by (auto simp: eval_nat_numeral length_Suc_conv)

lemma list6: "length t = 6 \<Longrightarrow> \<exists>a b c d e f. t = [a, b, c, d, e, f]"
  by (auto simp: eval_nat_numeral length_Suc_conv)

lemma list8: "length t = 8 \<Longrightarrow> \<exists>a b c d e f g h. t = [a, b, c, d, e, f, g, h]"
  by (auto simp: eval_nat_numeral length_Suc_conv)

lemma hex_to_ass_color_6:
  assumes "lstrip_chars CHR ''#'' s = t" "length t = 6" "list_all is_hex_digit t"
  shows "hex_to_ass_color s =
        Inr (''&H'' @ ''00'' @ two_upper_hex (hex_byte (take 2 (drop 4 t)))
             @ two_upper_hex (hex_byte (take 2 (drop 2 t))) @ two_upper_hex (hex_byte (take 2 t)))"
proof -
  obtain a b c d e f where t: "t = [a, b, c, d, e, f]"
    and h: "is_hex_digit a" "is_hex_digit b" "is_hex_digit c" "is_hex_digit d"
           "is_hex_digit e" "is_hex_digit f"
    using list6 [of t] assms by auto
  have "hex_to_ass_color s = Inr (''&H'' @ format_02X 0 @ format_02X (int (hex_byte [e, f]))
          @ format_02X (int (hex_byte [c, d])) @ format_02X (int (hex_byte [a, b])))"
    by (simp add: hex_to_ass_color_def assms(1) t int16_hex_pair h)
  moreover have "format_02X 0 = ''00''"
    using format_02X_byte [of 0] by (simp add: two_upper_hex_def digit_char_def)
  ultimately show ?thesis
    by (simp add: t format_02X_byte hex_byte_bound h)
qed

lemma hex_to_ass_color_8:
  assumes "lstrip_chars CHR ''#'' s = t" "length t = 8" "list_all is_hex_digit t"
  shows "hex_byte (take 2 (drop 6 t)) \<le> 255 \<and>
      hex_to_ass_color s =
        Inr (''&H'' @ two_upper_hex (255 - hex_byte (take 2 (drop 6 t)))
             @ two_upper_hex (hex_byte (take 2 (drop 4 t)))
             @ two_upper_hex (hex_byte (take 2 (drop 2 t))) @ two_upper_hex (hex_byte (take 2 t)))"
proof -
  obtain a b c d e f g k where t: "t = [a, b, c, d, e, f, g, k]"
    and h: "is_hex_digit a" "is_hex_digit b" "is_hex_digit c" "is_hex_digit d"
           "is_hex_digit e" "is_hex_digit f" "is_hex_digit g" "is_hex_digit k"
    using list8 [of t] assms by auto
  have al: "hex_byte [g, k] < 256" by (rule hex_byte_bound [OF h(7) h(8)])
  have "hex_to_ass_color s = Inr (''&H'' @ format_02X (255 - int (hex_byte [g, k]))
          @ format_02X (int (hex_byte [e, f]))
          @ format_02X (int (hex_byte [c, d])) @ format_02X (int (hex_byte [a, b])))"
    by (simp add: hex_to_ass_color_def assms(1) t int16_hex_pair h)
  moreover have "255 - int (hex_byte [g, k]) = int (255 - hex_byte [g, k])"
    using al by simp
  moreover have "255 - hex_byte [g, k] < 256" by simp
  ultimately have "hex_to_ass_color s =
        Inr (''&H'' @ two_upper_hex (255 - hex_byte (take 2 (drop 6 t)))
             @ two_upper_hex (hex_byte (take 2 (drop 4 t)))
             @ two_upper_hex (hex_byte (take 2 (drop 2 t))) @ two_upper_hex (hex_byte (take 2 t)))"
    by (simp add: t format_02X_byte hex_byte_bound h del: of_nat_diff)
  with al show ?thesis by (simp add: t)
qed

lemma hex_to_ass_color_wrong_length:
  "wrong_length s \<Longrightarrow> hex_to_ass_color s = Inl (InvalidHexColor (lstrip_chars CHR ''#'' s))"
  by (simp add: hex_to_ass_color_def wrong_length_def)

lemma two_upper_hex_chars:
  assumes "n < 256"
  shows "set (two_upper_hex n) \<subseteq> set ''0123456789ABCDEF''"
proof -
  have "n div 16 < 16" "n mod 16 < 16" using assms by simp_all
  then have "digit_char (n div 16) \<in> set ''0123456789ABCDEF''"
    "digit_char (n mod 16) \<in> set ''0123456789ABCDEF''"
    unfolding digit_char_def by (simp_all only: nth_mem length_Cons list.size)
  then show ?thesis by (simp add: two_upper_hex_def)
qed

lemma two_upper_hex_no_lf:
  assumes "n < 256"
  shows "CHR 0x0A \<notin> set (two_upper_hex n)"
proof -
  have "CHR 0x0A \<notin> set ''0123456789ABCDEF''" by simp
  with two_upper_hex_chars [OF assms] show ?thesis by blast
qed

lemma hex_pair_no_lf:
  assumes "length p = 2" "list_all is_hex_digit p"
  shows "CHR 0x0A \<notin> set (two_upper_hex (hex_byte p))"
proof -
  obtain c d where p: "p = [c, d]" using list2 [OF assms(1)] by blast
  then have "hex_byte p < 256" using assms(2) by (simp add: hex_byte_bound)
  then show ?thesis by (rule two_upper_hex_no_lf)
qed

lemma hex_to_ass_color_valid:
  assumes "valid_hex_color s"
  shows "\<exists>p. hex_to_ass_color s = Inr p \<and> CHR 0x0A \<notin> set p"
proof -
  define t where "t = lstrip_chars CHR ''#'' s"
  have hx: "list_all is_hex_digit t" and len: "length t = 6 \<or> length t = 8"
    using assms by (simp_all add: valid_hex_color_def t_def)
  have sub: "list_all is_hex_digit (take 2 (drop k t))" for k
    using hx by (auto simp: list_all_iff dest: in_set_takeD in_set_dropD)
  from len show ?thesis
  proof
    assume l: "length t = 6"
    have "CHR 0x0A \<notin> set (two_upper_hex (hex_byte (take 2 (drop k t))))" if "k \<le> 4" for k
      using that l by (intro hex_pair_no_lf sub) simp
    from this [of 0] this [of 2] this [of 4] show ?thesis
      using hex_to_ass_color_6 [OF t_def [symmetric] l hx] by simp
  next
    assume l: "length t = 8"
    have k: "CHR 0x0A \<notin> set (two_upper_hex (hex_byte (take 2 (drop k t))))" if "k \<le> 6" for k
      using that l by (intro hex_pair_no_lf sub) simp
    have "255 - hex_byte (take 2 (drop 6 t)) < 256" by simp
    from two_upper_hex_no_lf [OF this] k [of 0] k [of 2] k [of 4] show ?thesis
      using hex_to_ass_color_8 [OF t_def [symmetric] l hx] by simp
  qed
qed

text \<open>
  Claim C1, as amended. For every colour string, with every leading \<open>#\<close> stripped as the
  source does (\<open>lstrip('#')\<close>, not only the first one): six hexadecimal digits give \<open>&H\<close>,
  the alpha byte \<open>00\<close>, then the blue, green and red channels, each as exactly two
  upper-case hexadecimal digits; eight hexadecimal digits give the alpha byte 255 minus the
  input alpha (input \<open>CC\<close> = 204 gives \<open>33\<close> = 51); any other length fails with the error
  of the function's own \<open>raise\<close>.
\<close>

theorem hex_to_ass_color_spec:
  "(length (lstrip_chars CHR ''#'' s) = 6 \<and> (\<forall>c \<in> set (lstrip_chars CHR ''#'' s). is_hex_digit c) \<longrightarrow>
      hex_to_ass_color s =
        Inr (''&H'' @ ''00''
             @ two_upper_hex (hex_byte (take 2 (drop 4 (lstrip_chars CHR ''#'' s))))
             @ two_upper_hex (hex_byte (take 2 (drop 2 (lstrip_chars CHR ''#'' s))))
             @ two_upper_hex (hex_byte (take 2 (lstrip_chars CHR ''#'' s)))))
   \<and> (length (lstrip_chars CHR ''#'' s) = 8 \<and> (\<forall>c \<in> set (lstrip_chars CHR ''#'' s). is_hex_digit c) \<longrightarrow>
      hex_byte (take 2 (drop 6 (lstrip_chars CHR ''#'' s))) \<le> 255 \<and>
      hex_to_ass_color s =
        Inr (''&H''
             @ two_upper_hex (255 - hex_byte (take 2 (drop 6 (lstrip_chars CHR ''#'' s))))
             @ two_upper_hex (hex_byte (take 2 (drop 4 (lstrip_chars CHR ''#'' s))))
             @ two_upper_hex (hex_byte (take 2 (drop 2 (lstrip_chars CHR ''#'' s))))
             @ two_upper_hex (hex_byte (take 2 (lstrip_chars CHR ''#'' s)))))
   \<and> (length (lstrip_chars CHR ''#'' s) \<noteq> 6 \<and> length (lstrip_chars CHR ''#'' s) \<noteq> 8 \<longrightarrow>
      hex_to_ass_color s = Inl (InvalidHexColor (lstrip_chars CHR ''#'' s)))
   \<and> (\<forall>n < 256. length (two_upper_hex n) = 2 \<and> set (two_upper_hex n) \<subseteq> set ''0123456789ABCDEF'')
   \<and> hex_byte ''CC'' = 204 \<and> two_upper_hex 51 = ''33''
   \<and> hex_to_ass_color ''#000000CC'' = Inr ''&H33000000''"
proof (intro conjI impI allI)
  define t where "t = lstrip_chars CHR ''#'' s"
  {
    assume "length t = 6 \<and> (\<forall>c \<in> set t. is_hex_digit c)"
    then show "hex_to_ass_color s =
        Inr (''&H'' @ ''00'' @ two_upper_hex (hex_byte (take 2 (drop 4 t)))
             @ two_upper_hex (hex_byte (take 2 (drop 2 t))) @ two_upper_hex (hex_byte (take 2 t)))"
      using hex_to_ass_color_6 [OF t_def [symmetric]] by (simp add: list_all_iff)
  }
  {
    assume a: "length t = 8 \<and> (\<forall>c \<in> set t. is_hex_digit c)"
    then show "hex_byte (take 2 (drop 6 t)) \<le> 255"
      using hex_to_ass_color_8 [OF t_def [symmetric]] by (simp add: list_all_iff)
    from a show "hex_to_ass_color s =
        Inr (''&H'' @ two_upper_hex (255 - hex_byte (take 2 (drop 6 t)))
             @ two_upper_hex (hex_byte (take 2 (drop 4 t)))
             @ two_upper_hex (hex_byte (take 2 (drop 2 t))) @ two_upper_hex (hex_byte (take 2 t)))"
      using hex_to_ass_color_8 [OF t_def [symmetric]] by (simp add: list_all_iff)
  }
  {
    assume "length t \<noteq> 6 \<and> length t \<noteq> 8"
    then show "hex_to_ass_color s = Inl (InvalidHexColor t)"
      using hex_to_ass_color_wrong_length [of s] by (simp add: wrong_length_def t_def)
  }
  {
    fix n :: nat assume n: "n < 256"
    show "length (two_upper_hex n) = 2" by (simp add: two_upper_hex_def)
    show "set (two_upper_hex n) \<subseteq> set ''0123456789ABCDEF''"
      by (rule two_upper_hex_chars [OF n])
  }
  show "hex_byte ''CC'' = 204" by (simp add: hex_byte_def hex_digit_val_def)
  show "two_upper_hex 51 = ''33''" by (simp add: two_upper_hex_def digit_char_def)
  show "hex_to_ass_color ''#000000CC'' = Inr ''&H33000000''" by code_simp
qed

theorem hex_to_ass_color_spec_witness:
  "(length (lstrip_chars CHR ''#'' ''#00FF88'') = 6
      \<and> list_all is_hex_digit (lstrip_chars CHR ''#'' ''#00FF88'')
      \<and> hex_to_ass_color ''#00FF88'' = Inr ''&H0088FF00'')
   \<and> (length (lstrip_chars CHR ''#'' ''12abEF80'') = 8
      \<and> list_all is_hex_digit (lstrip_chars CHR ''#'' ''12abEF80'')
      \<and> hex_to_ass_color ''12abEF80'' = Inr ''&H7FEFAB12'')
   \<and> (length (lstrip_chars CHR ''#'' ''#FFF'') \<noteq> 6 \<and> length (lstrip_chars CHR ''#'' ''#FFF'') \<noteq> 8
      \<and> hex_to_ass_color ''#FFF'' = Inl (InvalidHexColor ''FFF''))
   \<and> (51 < (256 :: nat) \<and> length (two_upper_hex 51) = 2)"
  using hex_to_ass_color_spec [of "''#00FF88''"] hex_to_ass_color_spec [of "''12abEF80''"]
    hex_to_ass_color_spec [of "''#FFF''"]
  by (simp add: lstrip_chars_def is_hex_digit_def hex_byte_def hex_digit_val_def
      two_upper_hex_def digit_char_def)

text \<open>
  Claim C1 as worded strips a leading \<open>#\<close>. Of two, that leaves \<open>#FFFFFF\<close>: seven
  characters, neither six nor eight, for which the claim has the function fail. The source
  strips both and converts the colour.
\<close>

theorem hex_to_ass_color_double_hash_counterexample:
  "strip_one_hash ''##FFFFFF'' = ''#FFFFFF'' \<and> length (strip_one_hash ''##FFFFFF'') = 7
   \<and> hex_to_ass_color ''##FFFFFF'' = Inr ''&H00FFFFFF''"
  by code_simp

section \<open>Alignment codes\<close>

text \<open>
  Claim C5, as amended. For every position in bottom, center, top, custom and every alignment
  in left, center, right the code is base plus offset, with bases 1, 4, 7, 1 and offsets
  0, 1, 2, and lies in 1 to 9; in particular bottom/center is 2, top/left is 7 and
  center/right is 6.
\<close>

theorem get_alignment_code_table:
  "(\<forall>position \<in> set [''bottom'', ''center'', ''top'', ''custom''].
    \<forall>align \<in> set [''left'', ''center'', ''right''].
      get_alignment_code position align =
        (if position = ''bottom'' then 1 else if position = ''center'' then 4
         else if position = ''top'' then 7 else 1)
        + (if align = ''left'' then 0 else if align = ''center'' then 1 else 2)
      \<and> 1 \<le> get_alignment_code position align \<and> get_alignment_code position align \<le> 9)
   \<and> get_alignment_code ''bottom'' ''center'' = 2
   \<and> get_alignment_code ''top'' ''left'' = 7
   \<and> get_alignment_code ''center'' ''right'' = 6"
  by (simp add: get_alignment_code_def dict_get_def pos_base_def align_map_def)

theorem get_alignment_code_table_witness:
  "''custom'' \<in> set [''bottom'', ''center'', ''top'', ''custom'']
   \<and> ''right'' \<in> set [''left'', ''center'', ''right'']
   \<and> get_alignment_code ''custom'' ''right'' = 1 + 2
   \<and> get_alignment_code ''custom'' ''right'' = 3"
  using get_alignment_code_table [THEN conjunct1, rule_format, of "''custom''" "''right''"] by simp

text \<open>
  The claim as stated gives 5 for bottom/center; the table of the claim itself, and the code,
  give 1 + 1 = 2.
\<close>

theorem get_alignment_code_bottom_center_counterexample:
  "get_alignment_code ''bottom'' ''center'' = 2 \<and> get_alignment_code ''bottom'' ''center'' \<noteq> 5"
  by (simp add: get_alignment_code_def dict_get_def pos_base_def align_map_def)

section \<open>The chunker\<close>

lemma greedy_chunks_Nil: "greedy_chunks n [] = []"
  by (simp add: greedy_chunks.simps [of n "[]"])

lemma greedy_chunks_step:
  "0 < n \<Longrightarrow> xs \<noteq> [] \<Longrightarrow> greedy_chunks n xs = take n xs # greedy_chunks n (drop n xs)"
  by (simp add: greedy_chunks.simps [of n xs])

lemma chunk_loop_greedy:
  "1 \<le> m \<Longrightarrow> int (length cur) < m \<Longrightarrow>
   chunk_loop m chunks cur ws = chunks @ greedy_chunks (nat m) (cur @ ws)"
proof (induction ws arbitrary: chunks cur)
  case Nil
  then show ?case
    by (cases "cur = []") (simp_all add: greedy_chunks_Nil greedy_chunks_step)
next
  case (Cons w ws)
  show ?case
  proof (cases "m \<le> int (length (cur @ [w]))")
    case True
    with Cons.prems have len: "length (cur @ [w]) = nat m" by simp
    have "chunk_loop m chunks cur (w # ws) = chunk_loop m (chunks @ [cur @ [w]]) [] ws"
      using True by simp
    also have "\<dots> = (chunks @ [cur @ [w]]) @ greedy_chunks (nat m) ([] @ ws)"
      using Cons.prems by (intro Cons.IH) simp_all
    also have "\<dots> = chunks @ greedy_chunks (nat m) ((cur @ [w]) @ ws)"
    proof -
      have "take (nat m) ((cur @ [w]) @ ws) = cur @ [w]"
        using len by (metis append_eq_conv_conj)
      moreover have "drop (nat m) ((cur @ [w]) @ ws) = ws"
        using len by (metis append_eq_conv_conj)
      moreover have "0 < nat m" using Cons.prems(1) by simp
      ultimately have "greedy_chunks (nat m) ((cur @ [w]) @ ws) = (cur @ [w]) # greedy_chunks (nat m) ws"
        using greedy_chunks_step [of "nat m" "(cur @ [w]) @ ws"] by simp
      then show ?thesis by simp
    qed
    finally show ?thesis by simp
  next
    case False
    then have "chunk_loop m chunks cur (w # ws) = chunk_loop m chunks (cur @ [w]) ws"
      by simp
    also have "\<dots> = chunks @ greedy_chunks (nat m) ((cur @ [w]) @ ws)"
      using False Cons.prems by (intro Cons.IH) simp_all
    finally show ?thesis by simp
  qed
qed

lemma concat_greedy_chunks: "0 < n \<Longrightarrow> concat (greedy_chunks n xs) = xs"
proof (induction n xs rule: greedy_chunks.induct)
  case (1 n xs)
  then show ?case by (cases "xs = []") (simp_all add: greedy_chunks_Nil greedy_chunks_step)
qed

lemma greedy_chunks_sizes:
  "0 < n \<Longrightarrow> c \<in> set (greedy_chunks n xs) \<Longrightarrow> c \<noteq> [] \<and> length c \<le> n"
proof (induction n xs rule: greedy_chunks.induct)
  case (1 n xs)
  then show ?case
    by (cases "xs = []") (auto simp: greedy_chunks_Nil greedy_chunks_step)
qed

lemma greedy_chunks_full:
  "0 < n \<Longrightarrow> c \<in> set (butlast (greedy_chunks n xs)) \<Longrightarrow> length c = n"
proof (induction n xs rule: greedy_chunks.induct)
  case (1 n xs)
  show ?case
  proof (cases "xs = []")
    case True
    with 1 show ?thesis by (simp add: greedy_chunks_Nil)
  next
    case False
    show ?thesis
    proof (cases "drop n xs = []")
      case True
      with False 1 show ?thesis
        by (simp add: greedy_chunks_Nil greedy_chunks_step)
    next
      case ne: False
      then have "greedy_chunks n (drop n xs) \<noteq> []"
        using 1(2) by (simp add: greedy_chunks_step)
      with 1 False ne show ?thesis
        by (auto simp: greedy_chunks_step min_def)
    qed
  qed
qed

lemma chunk_words_eq_greedy:
  "1 \<le> m \<Longrightarrow> chunk_words xs m = greedy_chunks (nat m) xs"
  using chunk_loop_greedy [of m "[]" "[]" xs] by (simp add: chunk_words_def)

text \<open>
  Claim C3. For every word list and every \<open>max_words\<close> of at least 1, \<open>chunk_words\<close> is
  the greedy chunking: the chunks concatenate to the input, none is empty or longer than
  \<open>max_words\<close>, every chunk but the last has exactly \<open>max_words\<close> entries, the empty
  input gives no chunk, and seven words in chunks of three give chunks of 3, 3 and 1.
\<close>

theorem chunk_words_greedy:
  "1 \<le> max_words \<Longrightarrow>
     chunk_words ws max_words = greedy_chunks (nat max_words) ws
   \<and> concat (chunk_words ws max_words) = ws
   \<and> (\<forall>c \<in> set (chunk_words ws max_words). c \<noteq> [] \<and> int (length c) \<le> max_words)
   \<and> (\<forall>c \<in> set (butlast (chunk_words ws max_words)). int (length c) = max_words)
   \<and> chunk_words [] max_words = []
   \<and> chunk_words [''a'', ''b'', ''c'', ''d'', ''e'', ''f'', ''g''] 3
        = [[''a'', ''b'', ''c''], [''d'', ''e'', ''f''], [''g'']]"
proof -
  assume m: "1 \<le> max_words"
  note eq = chunk_words_eq_greedy [OF m]
  have pos: "0 < nat max_words" using m by simp
  have "c \<noteq> [] \<and> int (length c) \<le> max_words" if "c \<in> set (chunk_words ws max_words)" for c
    using greedy_chunks_sizes [OF pos, of c ws] that m by (auto simp: eq)
  then have sizes: "\<forall>c \<in> set (chunk_words ws max_words). c \<noteq> [] \<and> int (length c) \<le> max_words"
    by blast
  have "int (length c) = max_words" if "c \<in> set (butlast (chunk_words ws max_words))" for c
    using greedy_chunks_full [OF pos, of c ws] that m by (auto simp: eq)
  then have full: "\<forall>c \<in> set (butlast (chunk_words ws max_words)). int (length c) = max_words"
    by blast
  have ex: "chunk_words [''a'', ''b'', ''c'', ''d'', ''e'', ''f'', ''g''] 3
        = [[''a'', ''b'', ''c''], [''d'', ''e'', ''f''], [''g'']]"
    by (simp add: chunk_words_def)
  have cc: "concat (chunk_words ws max_words) = ws"
    using concat_greedy_chunks [OF pos] by (simp add: eq)
  have nil: "chunk_words [] max_words = []"
    by (simp add: chunk_words_def)
  show ?thesis
    using eq cc sizes full nil ex by blast
qed

theorem chunk_words_greedy_witness:
  "(1::int) \<le> 2 \<and> chunk_words [10, 20, 30, 40, 50 :: nat] 2 = [[10, 20], [30, 40], [50]]"
  using chunk_words_greedy [of 2 "[10, 20, 30, 40, 50 :: nat]"]
  by (simp add: chunk_words_def)

section \<open>Word timings\<close>

text \<open>
  Claim C2. The claim, like the docstring of \<open>calculate_word_timings\<close> (word-level time
  stamps when they are available, otherwise an estimate from the character counts), has
  the timings estimated from the text whenever the \<open>words\<close> field gives none. The source
  tests only that the key \<open>words\<close> is present. For the segment from 0 to 1 with the text
  \<open>hello\<close> and an empty \<open>words\<close> list it returns no timings, where the estimate from the
  text is the one word \<open>hello\<close> from 0 to 1.
\<close>

theorem calculate_word_timings_empty_words_divergence:
  "calculate_word_timings
      \<lparr>seg_start = Some 0, seg_end = Some 1, seg_text = Some ''hello'', seg_words = Some []\<rparr>
     = []
   \<and> estimate_as_claimed
      \<lparr>seg_start = Some 0, seg_end = Some 1, seg_text = Some ''hello'', seg_words = Some []\<rparr>
     = [\<lparr>wt_word = ''hello'', wt_start = 0, wt_end = 1\<rparr>]
   \<and> calculate_word_timings
      \<lparr>seg_start = Some 0, seg_end = Some 1, seg_text = Some ''hello'', seg_words = None\<rparr>
     = [\<lparr>wt_word = ''hello'', wt_start = 0, wt_end = 1\<rparr>]"
  by code_simp

text \<open>
  The estimate in double precision. For the segment from 0 to 10 with the text \<open>ab abcd\<close>
  the two durations are \<open>(2 / 6) * 10\<close> and \<open>(4 / 6) * 10\<close> as the doubles give them, and the
  second word ends at 10. From 0 to 7 the second word ends one unit in the last place
  below 7: the durations add up to the duration of the segment only up to rounding.
\<close>

lemma estimate_ten_seconds:
  "calculate_word_timings
      \<lparr>seg_start = Some 0, seg_end = Some 10, seg_text = Some ''ab abcd'', seg_words = None\<rparr>
     = [\<lparr>wt_word = ''ab'', wt_start = 0, wt_end = fmul (fdiv 2 6) 10\<rparr>,
        \<lparr>wt_word = ''abcd'', wt_start = fmul (fdiv 2 6) 10, wt_end = 10\<rparr>]"
  by code_simp

lemma estimate_seven_seconds:
  "wt_end (last (calculate_word_timings
      \<lparr>seg_start = Some 0, seg_end = Some 7, seg_text = Some ''ab abcd'', seg_words = None\<rparr>))
     = 7 - 1 / 2 ^ 50"
  by code_simp

section \<open>Round trip of the theme model\<close>

lemma from_dict_to_dict: "from_dict (Some (to_dict t)) = t"
  by (simp add: from_dict_def to_dict_def opt_get_def)

text \<open>
  Claim C7. Reading back the structured document written for the all-defaults theme gives
  the all-defaults theme, field for field.
\<close>

theorem theme_round_trip_default:
  "from_dict (Some (to_dict default_theme)) = default_theme"
  by (simp add: from_dict_def to_dict_def opt_get_def)

section \<open>Segments without word timings\<close>

lemma dropWhile_all: "list_all P xs \<Longrightarrow> dropWhile P xs = []"
  by (induction xs) auto

lemma strip_all_space: "list_all is_space s \<Longrightarrow> strip s = []"
  by (simp add: strip_def dropWhile_all)

lemma calculate_word_timings_words_blank:
  "seg_words segment = Some ws \<Longrightarrow> list_all (\<lambda>w. strip (opt_get (we_word w) []) = []) ws \<Longrightarrow>
   calculate_word_timings segment = []"
  by (simp add: calculate_word_timings_def filter_empty_conv list_all_iff)

lemma calculate_word_timings_text_blank:
  "seg_words segment = None \<Longrightarrow> list_all is_space (opt_get (seg_text segment) []) \<Longrightarrow>
   calculate_word_timings segment = []"
  by (simp add: calculate_word_timings_def estimate_from_text_def strip_all_space split_ws_def)

lemma render_segment_simple_event:
  "\<exists>text. render_segment_simple self segment =
     ''Dialogue: 0,'' @ format_time_ass (opt_get (seg_start segment) 0) @ '',''
     @ format_time_ass (opt_get (seg_end segment) 0) @ '',Default,,0,0,0,,'' @ text @ nl"
  unfolding render_segment_simple_def dialogue_line_def Let_def by blast

text \<open>
  Claim C10. For every segment whose word timings are empty, the karaoke and the
  per-word-background strategies both return exactly the output of the plain strategy,
  which is one dialogue event running from the start to the end of the segment. The word
  timings are empty when the \<open>words\<close> field is present and every entry trims to the empty
  word, and when there is no \<open>words\<close> field and the text is whitespace only.
\<close>

theorem empty_timings_render_plain:
  "(calculate_word_timings segment = [] \<longrightarrow>
      render_segment_karaoke self segment = Inr (render_segment_simple self segment)
    \<and> render_segment_per_word_background self segment = Inr (render_segment_simple self segment)
    \<and> (\<exists>text. render_segment_simple self segment =
          ''Dialogue: 0,'' @ format_time_ass (opt_get (seg_start segment) 0) @ '',''
          @ format_time_ass (opt_get (seg_end segment) 0) @ '',Default,,0,0,0,,'' @ text @ nl))
   \<and> (seg_words segment = Some ws \<and> list_all (\<lambda>w. strip (opt_get (we_word w) []) = []) ws \<longrightarrow>
        calculate_word_timings segment = [])
   \<and> (seg_words segment = None \<and> list_all is_space (opt_get (seg_text segment) []) \<longrightarrow>
        calculate_word_timings segment = [])"
  using render_segment_simple_event [of self segment]
    calculate_word_timings_words_blank [of segment ws]
    calculate_word_timings_text_blank [of segment]
  by (simp add: render_segment_karaoke_def render_segment_per_word_background_def)

theorem empty_timings_render_plain_witness:
  "calculate_word_timings
      \<lparr>seg_start = Some 1, seg_end = Some 2, seg_text = Some ''hello'',
       seg_words = Some [\<lparr>we_word = Some '' '', we_start = Some 1, we_end = Some 2\<rparr>]\<rparr> = []
   \<and> render_segment_karaoke (init_renderer default_theme 1080 1920)
      \<lparr>seg_start = Some 1, seg_end = Some 2, seg_text = Some ''hello'',
       seg_words = Some [\<lparr>we_word = Some '' '', we_start = Some 1, we_end = Some 2\<rparr>]\<rparr>
     = Inr (render_segment_simple (init_renderer default_theme 1080 1920)
      \<lparr>seg_start = Some 1, seg_end = Some 2, seg_text = Some ''hello'',
       seg_words = Some [\<lparr>we_word = Some '' '', we_start = Some 1, we_end = Some 2\<rparr>]\<rparr>)
   \<and> seg_words \<lparr>seg_start = Some 1, seg_end = Some 2, seg_text = Some ''  '', seg_words = None\<rparr>
       = None
   \<and> list_all is_space
        (opt_get (seg_text \<lparr>seg_start = Some 1, seg_end = Some 2, seg_text = Some ''  '',
                             seg_words = None\<rparr>) [])
   \<and> calculate_word_timings
        \<lparr>seg_start = Some 1, seg_end = Some 2, seg_text = Some ''  '', seg_words = None\<rparr> = []
   \<and> render_segment_per_word_background
        (init_renderer default_theme 1080 1920)
        \<lparr>seg_start = Some 1, seg_end = Some 2, seg_text = Some ''  '', seg_words = None\<rparr>
     = Inr (render_segment_simple (init_renderer default_theme 1080 1920)
        \<lparr>seg_start = Some 1, seg_end = Some 2, seg_text = Some ''  '', seg_words = None\<rparr>)"
  using empty_timings_render_plain
    [of "\<lparr>seg_start = Some 1, seg_end = Some 2, seg_text = Some ''hello'',
         seg_words = Some [\<lparr>we_word = Some '' '', we_start = Some 1, we_end = Some 2\<rparr>]\<rparr>"
        "(init_renderer default_theme 1080 1920)"
        "[\<lparr>we_word = Some '' '', we_start = Some 1, we_end = Some 2\<rparr>]"]
    empty_timings_render_plain
    [of "\<lparr>seg_start = Some 1, seg_end = Some 2, seg_text = Some ''  '', seg_words = None\<rparr>"
        "(init_renderer default_theme 1080 1920)" "[]"]
  by (simp add: opt_get_def strip_def is_space_def)

section \<open>Double-precision arithmetic\<close>

text \<open>
  The rounding \<open>rnd\<close> stays within half a unit in the last place, fixes the integers below
  \<open>2\<^sup>5\<^sup>3\<close>, and keeps a number between the two integers around it; the floor division and
  the remainder of Python are exact on the arguments that \<open>format_time_ass\<close> gives them.
\<close>

lemma ilog2_bounds:
  assumes "0 < x"
  shows "2 powi ilog2 x \<le> x \<and> x < 2 powi (ilog2 x + 1)"
proof -
  obtain p q where pq: "quotient_of x = (p, q)" by (cases "quotient_of x")
  then have q: "0 < q" and x: "x = of_int p / of_int q"
    using quotient_of_denom_pos [OF pq] quotient_of_div [OF pq] by simp_all
  have p: "0 < p" using assms q x by (simp add: zero_less_divide_iff)
  define bp where "bp = bitlen p"
  define bq where "bq = bitlen q"
  have bp: "1 \<le> bp" and bq: "1 \<le> bq"
    using p q bitlen_eq_zero_iff [of p] bitlen_eq_zero_iff [of q] bitlen_nonneg [of p]
      bitlen_nonneg [of q] by (simp_all add: bp_def bq_def)
  have "p < 2 ^ nat bp" using bitlen_bounds [OF p] by (simp add: bp_def)
  then have "(of_int p :: rat) < of_int (2 ^ nat bp)" by (simp only: of_int_less_iff)
  then have pu: "(of_int p :: rat) < 2 powi bp" using bp by (simp add: power_int_def)
  have "2 ^ nat (bp - 1) \<le> p" using bitlen_bounds [OF p] by (simp add: bp_def)
  then have "(of_int (2 ^ nat (bp - 1)) :: rat) \<le> of_int p" by (simp only: of_int_le_iff)
  then have pl: "(2 :: rat) powi (bp - 1) \<le> of_int p" using bp by (simp add: power_int_def)
  have "q < 2 ^ nat bq" using bitlen_bounds [OF q] by (simp add: bq_def)
  then have "(of_int q :: rat) < of_int (2 ^ nat bq)" by (simp only: of_int_less_iff)
  then have qu: "(of_int q :: rat) < 2 powi bq" using bq by (simp add: power_int_def)
  have "2 ^ nat (bq - 1) \<le> q" using bitlen_bounds [OF q] by (simp add: bq_def)
  then have "(of_int (2 ^ nat (bq - 1)) :: rat) \<le> of_int q" by (simp only: of_int_le_iff)
  then have ql: "(2 :: rat) powi (bq - 1) \<le> of_int q" using bq by (simp add: power_int_def)
  have qpos: "(0 :: rat) < of_int q" using q by simp
  have upper: "x < 2 powi (bp - bq + 1)"
  proof -
    have "x * of_int q = of_int p" using x qpos by simp
    also have "\<dots> < 2 powi bp" by (rule pu)
    also have "\<dots> = 2 powi (bp - bq + 1) * 2 powi (bq - 1)"
      by (simp add: power_int_add [symmetric])
    also have "\<dots> \<le> 2 powi (bp - bq + 1) * of_int q"
      using ql by (intro mult_left_mono) simp_all
    finally show ?thesis using qpos by simp
  qed
  have lower: "2 powi (bp - bq - 1) < x"
  proof -
    have "(2 :: rat) powi (bp - bq - 1) * of_int q < 2 powi (bp - bq - 1) * 2 powi bq"
      using qu by (intro mult_strict_left_mono) simp_all
    also have "\<dots> = 2 powi (bp - 1)" by (simp add: power_int_add [symmetric])
    also have "\<dots> \<le> of_int p" by (rule pl)
    also have "\<dots> = x * of_int q" using x qpos by simp
    finally show ?thesis using qpos by simp
  qed
  show ?thesis
  proof (cases "2 powi (bp - bq) \<le> x")
    case True
    then have "ilog2 x = bp - bq" by (simp add: ilog2_def pq bp_def bq_def)
    with True upper show ?thesis by simp
  next
    case False
    then have "ilog2 x = bp - bq - 1" by (simp add: ilog2_def pq bp_def bq_def)
    with False lower show ?thesis by simp
  qed
qed

lemma round_half_even_bounds:
  "\<lfloor>y\<rfloor> \<le> round_half_even y \<and> round_half_even y \<le> \<lfloor>y\<rfloor> + 1
   \<and> \<bar>of_int (round_half_even y) - y\<bar> \<le> 1 / 2"
proof -
  have "of_int \<lfloor>y\<rfloor> \<le> y" "y < of_int \<lfloor>y\<rfloor> + 1" by linarith+
  then show ?thesis
    by (auto simp: round_half_even_def Let_def abs_le_iff)
qed

lemma round_half_even_of_int: "round_half_even (of_int n) = n"
  by (simp add: round_half_even_def)

lemma rnd_nonneg: "0 \<le> x \<Longrightarrow> 0 \<le> rnd x"
proof (cases "x = 0")
  case True
  then show ?thesis by (simp add: rnd_def)
next
  case False
  assume "0 \<le> x"
  then have "0 \<le> x / 2 powi ulp_exp x" by simp
  then have "0 \<le> \<lfloor>x / 2 powi ulp_exp x\<rfloor>" by simp
  with round_half_even_bounds [of "x / 2 powi ulp_exp x"]
  have "0 \<le> round_half_even (x / 2 powi ulp_exp x)" by linarith
  then show ?thesis using False by (simp add: rnd_def)
qed

lemma rnd_error:
  "\<bar>rnd x - x\<bar> \<le> 2 powi ulp_exp x / 2"
proof (cases "x = 0")
  case True
  then show ?thesis by (simp add: rnd_def)
next
  case False
  define u :: rat where "u = 2 powi ulp_exp x"
  have u: "0 < u" by (simp add: u_def)
  have "rnd x - x = (of_int (round_half_even (x / u)) - x / u) * u"
    using False u by (simp add: rnd_def u_def algebra_simps)
  then have "\<bar>rnd x - x\<bar> = \<bar>of_int (round_half_even (x / u)) - x / u\<bar> * u"
    using u by (simp add: abs_mult)
  also have "\<dots> \<le> 1 / 2 * u"
    using round_half_even_bounds [of "x / u"] u by (intro mult_right_mono) simp_all
  finally show ?thesis by (simp add: u_def)
qed

lemma ilog2_less:
  assumes "0 < x" "x < 2 powi k"
  shows "ilog2 x < k"
proof (rule ccontr)
  assume "\<not> ilog2 x < k"
  then have "(2 :: rat) powi k \<le> 2 powi ilog2 x"
    by (intro power_int_increasing) simp_all
  with ilog2_bounds [OF assms(1)] assms(2) show False by linarith
qed

lemma ilog2_ge:
  assumes "0 < x" "2 powi k \<le> x"
  shows "k \<le> ilog2 x"
proof (rule ccontr)
  assume "\<not> k \<le> ilog2 x"
  then have "(2 :: rat) powi (ilog2 x + 1) \<le> 2 powi k"
    by (intro power_int_increasing) simp_all
  with ilog2_bounds [OF assms(1)] assms(2) show False by linarith
qed

lemma powi_nonpos: "q \<le> 0 \<Longrightarrow> (2 :: rat) powi q = 1 / 2 ^ nat (- q)"
  by (cases "q = 0") (simp_all add: power_int_def inverse_eq_divide power_one_over)

lemma floor_div_mult_le:
  fixes t w :: rat
  assumes "0 < w"
  shows "w * of_int \<lfloor>t / w\<rfloor> \<le> t"
proof -
  have "of_int \<lfloor>t / w\<rfloor> \<le> t / w" by (rule of_int_floor_le)
  then have "of_int \<lfloor>t / w\<rfloor> * w \<le> t" using assms by (simp only: pos_le_divide_eq)
  then show ?thesis by (simp only: mult.commute)
qed

lemma floor_div_mult_gt:
  fixes t w :: rat
  assumes "0 < w"
  shows "t < w * (of_int \<lfloor>t / w\<rfloor> + 1)"
proof -
  have "t / w < of_int \<lfloor>t / w\<rfloor> + 1" by linarith
  then have "t < (of_int \<lfloor>t / w\<rfloor> + 1) * w" using assms by (simp only: pos_divide_less_eq)
  then show ?thesis by (simp only: mult.commute)
qed

lemma ulp_exp_le:
  assumes "0 < y" "y < 2 powi k" "- 1021 \<le> k"
  shows "ulp_exp y \<le> k - 53"
  using ilog2_less [OF assms(1,2)] assms(1,3) by (simp add: ulp_exp_def)

lemma rnd_of_int:
  assumes "\<bar>n\<bar> < 2 ^ 53"
  shows "rnd (of_int n) = of_int n"
proof (cases "n = 0")
  case True
  then show ?thesis by (simp add: rnd_def)
next
  case False
  define x :: rat where "x = \<bar>of_int n\<bar>"
  have x0: "0 < x" using False by (simp add: x_def)
  have "1 \<le> \<bar>n\<bar>" using False by simp
  then have "(of_int 1 :: rat) \<le> of_int \<bar>n\<bar>" by (simp only: of_int_le_iff)
  then have x1: "2 powi 0 \<le> x" by (simp add: x_def)
  have "(of_int \<bar>n\<bar> :: rat) < of_int (2 ^ 53)" using assms by (simp only: of_int_less_iff)
  then have x2: "x < 2 powi 53" by (simp add: x_def)
  define q where "q = ulp_exp (of_int n)"
  have "0 \<le> ilog2 x" "ilog2 x < 53"
    using ilog2_ge [OF x0 x1] ilog2_less [OF x0 x2] by simp_all
  then have q: "q \<le> 0" by (simp add: q_def ulp_exp_def x_def)
  define k where "k = nat (- q)"
  have u: "(2 :: rat) powi q = 1 / 2 ^ k" using powi_nonpos [OF q] by (simp add: k_def)
  have "of_int n / (2 :: rat) powi q = of_int (n * 2 ^ k)" by (simp add: u)
  then have "round_half_even (of_int n / 2 powi q) = n * 2 ^ k"
    by (simp only: round_half_even_of_int)
  then have "rnd (of_int n) = of_int (n * 2 ^ k) * 2 powi q"
    using False by (simp add: rnd_def q_def [symmetric])
  then show ?thesis by (simp add: u)
qed

lemma rnd_sandwich:
  assumes "0 \<le> y" "ulp_exp y \<le> 0"
  shows "of_int \<lfloor>y\<rfloor> \<le> rnd y \<and> rnd y \<le> of_int \<lfloor>y\<rfloor> + 1"
proof (cases "y = 0")
  case True
  then show ?thesis by (simp add: rnd_def)
next
  case False
  define k where "k = nat (- ulp_exp y)"
  have u: "(2 :: rat) powi ulp_exp y = 1 / 2 ^ k"
    using powi_nonpos [OF assms(2)] by (simp add: k_def)
  define z where "z = y * 2 ^ k"
  have r: "rnd y = of_int (round_half_even z) / 2 ^ k"
    using False by (simp add: rnd_def u z_def)
  have "of_int \<lfloor>y\<rfloor> \<le> y" by simp
  then have "of_int \<lfloor>y\<rfloor> * 2 ^ k \<le> z" by (simp add: z_def)
  then have "of_int (\<lfloor>y\<rfloor> * 2 ^ k) \<le> z" by simp
  then have lo: "\<lfloor>y\<rfloor> * 2 ^ k \<le> \<lfloor>z\<rfloor>" by (simp only: le_floor_iff)
  have "y < of_int (\<lfloor>y\<rfloor> + 1)" by linarith
  then have "z < of_int (\<lfloor>y\<rfloor> + 1) * 2 ^ k" by (simp add: z_def)
  then have "z < of_int ((\<lfloor>y\<rfloor> + 1) * 2 ^ k)" by simp
  then have hi: "\<lfloor>z\<rfloor> < (\<lfloor>y\<rfloor> + 1) * 2 ^ k" by (simp only: floor_less_iff)
  from lo hi round_half_even_bounds [of z]
  have "\<lfloor>y\<rfloor> * 2 ^ k \<le> round_half_even z" "round_half_even z \<le> (\<lfloor>y\<rfloor> + 1) * 2 ^ k"
    by linarith+
  then have "(of_int (\<lfloor>y\<rfloor> * 2 ^ k) :: rat) \<le> of_int (round_half_even z)"
    "(of_int (round_half_even z) :: rat) \<le> of_int ((\<lfloor>y\<rfloor> + 1) * 2 ^ k)"
    by (simp_all only: of_int_le_iff)
  then have "of_int \<lfloor>y\<rfloor> * 2 ^ k \<le> (of_int (round_half_even z) :: rat)"
    "(of_int (round_half_even z) :: rat) \<le> (of_int \<lfloor>y\<rfloor> + 1) * 2 ^ k"
    by simp_all
  then show ?thesis by (simp add: r field_simps)
qed

lemma double_frac_bound:
  assumes "is_double t" "0 \<le> t"
  shows "t - of_int \<lfloor>t\<rfloor> \<le> 1 - 1 / 2 ^ 53"
proof (cases "t = 0")
  case True
  then show ?thesis by simp
next
  case False
  then have t0: "0 < t" using assms(2) by simp
  define q where "q = ulp_exp t"
  define K where "K = round_half_even (t / 2 powi q)"
  have t: "t = of_int K * 2 powi q"
    using assms(1) False by (simp add: is_double_def rnd_def q_def K_def)
  show ?thesis
  proof (cases "- 53 \<le> q")
    case True
    define j where "j = nat (q + 53)"
    have "(2 :: rat) powi q * 2 ^ 53 = 2 powi q * 2 powi 53" by simp
    also have "\<dots> = 2 powi (q + 53)" by (simp add: power_int_add)
    also have "\<dots> = 2 ^ j" using True by (simp add: power_int_def j_def)
    finally have "t * 2 ^ 53 = of_int (K * 2 ^ j)"
      using t by (simp add: mult.assoc)
    then have "(t - of_int \<lfloor>t\<rfloor>) * 2 ^ 53 = of_int (K * 2 ^ j - \<lfloor>t\<rfloor> * 2 ^ 53)"
      by (simp add: algebra_simps)
    moreover have "(t - of_int \<lfloor>t\<rfloor>) * 2 ^ 53 < 1 * 2 ^ 53"
      by (intro mult_strict_right_mono) (simp_all, linarith)
    ultimately have "(of_int (K * 2 ^ j - \<lfloor>t\<rfloor> * 2 ^ 53) :: rat) < of_int (2 ^ 53)" by simp
    then have "K * 2 ^ j - \<lfloor>t\<rfloor> * 2 ^ 53 < 2 ^ 53" by (simp only: of_int_less_iff)
    then have "K * 2 ^ j - \<lfloor>t\<rfloor> * 2 ^ 53 \<le> 2 ^ 53 - 1" by simp
    then have "(of_int (K * 2 ^ j - \<lfloor>t\<rfloor> * 2 ^ 53) :: rat) \<le> of_int (2 ^ 53 - 1)"
      by (simp only: of_int_le_iff)
    with \<open>(t - of_int \<lfloor>t\<rfloor>) * 2 ^ 53 = of_int (K * 2 ^ j - \<lfloor>t\<rfloor> * 2 ^ 53)\<close>
    have "(t - of_int \<lfloor>t\<rfloor>) * 2 ^ 53 \<le> 2 ^ 53 - 1" by simp
    then show ?thesis by (simp add: field_simps)
  next
    case False
    then have "ilog2 t + 1 \<le> - 1" using t0 by (simp add: q_def ulp_exp_def)
    then have "(2 :: rat) powi (ilog2 t + 1) \<le> 2 powi (- 1)"
      by (intro power_int_increasing) simp_all
    with ilog2_bounds [OF t0] have "t < 1 / 2" by (simp add: power_int_minus)
    moreover from this t0 have "\<lfloor>t\<rfloor> = 0" by (simp add: floor_eq_iff)
    ultimately show ?thesis by simp
  qed
qed

lemma py_int_floor: "0 \<le> x \<Longrightarrow> py_int x = \<lfloor>x\<rfloor>"
  by (simp add: py_int_def)

lemma py_mod_pos:
  assumes "0 \<le> t" "0 < w"
  shows "py_mod t w = t - w * of_int \<lfloor>t / w\<rfloor>"
proof -
  have "0 \<le> t / w" using assms by simp
  then have m: "c_fmod t w = t - w * of_int \<lfloor>t / w\<rfloor>" by (simp add: c_fmod_def py_int_floor)
  have "w * of_int \<lfloor>t / w\<rfloor> \<le> t" using assms(2) by (rule floor_div_mult_le)
  then have "0 \<le> c_fmod t w" by (simp add: m)
  then show ?thesis using assms(2) by (simp add: py_mod_def Let_def m)
qed

lemma py_mod_pos_range:
  assumes "0 \<le> t" "0 < w"
  shows "0 \<le> py_mod t w \<and> py_mod t w < w"
proof -
  have "w * of_int \<lfloor>t / w\<rfloor> \<le> t" "t < w * (of_int \<lfloor>t / w\<rfloor> + 1)"
    using assms(2) by (rule floor_div_mult_le, rule floor_div_mult_gt)
  then show ?thesis by (simp add: py_mod_pos [OF assms] algebra_simps)
qed

lemma py_floordiv_nonneg:
  assumes "0 \<le> t" "0 < w"
  shows "0 \<le> py_floordiv t w"
proof -
  define m where "m = c_fmod t w"
  have "0 \<le> t / w" using assms by simp
  then have m: "m = t - w * of_int \<lfloor>t / w\<rfloor>" by (simp add: m_def c_fmod_def py_int_floor)
  have le: "w * of_int \<lfloor>t / w\<rfloor> \<le> t" using assms(2) by (rule floor_div_mult_le)
  then have m0: "0 \<le> m" by (simp add: m)
  have "m \<le> t" using assms \<open>0 \<le> t / w\<close> by (simp add: m)
  then have "0 \<le> fsub t m" by (simp add: fsub_def rnd_nonneg)
  then have "0 \<le> fsub t m / w" using assms(2) by simp
  then have d0: "0 \<le> fdiv (fsub t m) w" by (simp add: fdiv_def rnd_nonneg)
  then have fl: "0 \<le> (of_int \<lfloor>fdiv (fsub t m) w\<rfloor> :: rat)" by simp
  then have "0 \<le> fadd (of_int \<lfloor>fdiv (fsub t m) w\<rfloor>) 1" by (simp add: fadd_def rnd_nonneg)
  with fl m0 assms(2) show ?thesis
    by (simp add: py_floordiv_def Let_def m_def [symmetric])
qed

lemma py_floordiv_exact:
  assumes "0 \<le> t" "0 < w" "t < 2 ^ 53"
  shows "py_floordiv t (of_int w) = of_int \<lfloor>t / of_int w\<rfloor>"
proof -
  define n where "n = \<lfloor>t / of_int w\<rfloor>"
  define m where "m = c_fmod t (of_int w)"
  have w: "(0 :: rat) < of_int w" using assms(2) by simp
  have tw: "0 \<le> t / of_int w" using assms by simp
  then have n0: "0 \<le> n" by (simp add: n_def)
  have m: "m = t - of_int w * of_int n" using tw by (simp add: m_def c_fmod_def py_int_floor n_def)
  have "of_int w * of_int n \<le> t" unfolding n_def using w by (rule floor_div_mult_le)
  then have le: "of_int (w * n) \<le> t" by simp
  then have m0: "0 \<le> m" by (simp add: m)
  have "(of_int (w * n) :: rat) < of_int (2 ^ 53)" using le assms(3) by simp
  then have wn: "w * n < 2 ^ 53" by (simp only: of_int_less_iff)
  moreover have "0 \<le> w * n" using n0 assms(2) by simp
  ultimately have "\<bar>w * n\<bar> < 2 ^ 53" by simp
  then have "rnd (of_int (w * n)) = of_int (w * n)" by (rule rnd_of_int)
  then have s: "fsub t m = of_int (w * n)" by (simp add: fsub_def m)
  have "n \<le> w * n" using n0 assms(2) by (simp add: mult_le_cancel_right1)
  then have "\<bar>n\<bar> < 2 ^ 53" using n0 wn by simp
  then have "rnd (of_int n) = of_int n" by (rule rnd_of_int)
  then have d: "fdiv (fsub t m) (of_int w) = of_int n" using w by (simp add: fdiv_def s)
  have z: "fsub (of_int n) (of_int n) = 0" by (simp add: fsub_def rnd_def)
  show ?thesis using m0 w
    by (simp add: py_floordiv_def Let_def m_def [symmetric] d z n_def [symmetric])
qed

section \<open>Time stamps\<close>

lemma floor_divide_int:
  fixes x :: rat
  assumes "0 < n"
  shows "\<lfloor>x / of_int n\<rfloor> = \<lfloor>x\<rfloor> div n"
proof (rule floor_unique)
  have n: "(0::rat) < of_int n" using assms by simp
  have "\<lfloor>x\<rfloor> div n * n \<le> \<lfloor>x\<rfloor>"
  proof -
    have "\<lfloor>x\<rfloor> = \<lfloor>x\<rfloor> div n * n + \<lfloor>x\<rfloor> mod n" by simp
    moreover have "0 \<le> \<lfloor>x\<rfloor> mod n" using assms by simp
    ultimately show ?thesis by linarith
  qed
  then have "of_int (\<lfloor>x\<rfloor> div n * n) \<le> (of_int \<lfloor>x\<rfloor> :: rat)"
    unfolding of_int_le_iff .
  also have "\<dots> \<le> x" by simp
  finally show "of_int (\<lfloor>x\<rfloor> div n) \<le> x / of_int n"
    using n by (simp add: le_divide_eq)
  have "\<lfloor>x\<rfloor> + 1 \<le> (\<lfloor>x\<rfloor> div n + 1) * n"
  proof -
    have e: "\<lfloor>x\<rfloor> = \<lfloor>x\<rfloor> div n * n + \<lfloor>x\<rfloor> mod n" by simp
    have r: "\<lfloor>x\<rfloor> mod n < n" using assms by simp
    have d: "(\<lfloor>x\<rfloor> div n + 1) * n = \<lfloor>x\<rfloor> div n * n + n" by (simp add: algebra_simps)
    show ?thesis using e r unfolding d by linarith
  qed
  then have "(of_int (\<lfloor>x\<rfloor> + 1) :: rat) \<le> of_int ((\<lfloor>x\<rfloor> div n + 1) * n)"
    unfolding of_int_le_iff .
  moreover have "x < of_int (\<lfloor>x\<rfloor> + 1)" by linarith
  ultimately have "x < of_int ((\<lfloor>x\<rfloor> div n + 1) * n)" by linarith
  then show "x / of_int n < of_int (\<lfloor>x\<rfloor> div n) + 1"
    using n by (simp add: divide_less_eq)
qed

lemma format_02d_two_digits: "n < 100 \<Longrightarrow> format_02d (int n) = two_digits n"
proof (cases "n < 10")
  case True
  then show ?thesis
    by (simp add: format_02d_def format_pad2_def digits_of.simps [of 10 n] zero_pad_def
        two_digits_def digit_char_def)
next
  case False
  assume "n < 100"
  then have "n div 10 < 10" by simp
  with False show ?thesis
    by (simp add: format_02d_def format_pad2_def digits_of.simps [of 10 n]
        digits_of.simps [of 10 "n div 10"] zero_pad_def two_digits_def)
qed

lemma digit_char_decimal: "d < 10 \<Longrightarrow> is_decimal_digit (digit_char d) \<and> of_char (digit_char d) = 48 + d"
proof -
  assume "d < 10"
  then have "d = 0 \<or> d = 1 \<or> d = 2 \<or> d = 3 \<or> d = 4 \<or> d = 5 \<or> d = 6 \<or> d = 7
    \<or> d = 8 \<or> d = 9" by arith
  then show ?thesis
    by (elim disjE) (simp_all add: digit_char_def is_decimal_digit_def)
qed

lemma digits_of_decimal:
  "list_all is_decimal_digit (digits_of 10 n) \<and> decimal_value (digits_of 10 n) = n
   \<and> digits_of 10 n \<noteq> [] \<and> (hd (digits_of 10 n) = CHR ''0'' \<longrightarrow> n = 0)"
proof (induction "10 :: nat" n rule: digits_of.induct)
  case (1 n)
  show ?case
  proof (cases "n < 10")
    case True
    then show ?thesis
      using digit_char_decimal [of n]
      by (auto simp: digits_of.simps [of 10 n] decimal_value_def)
  next
    case False
    then have ih: "list_all is_decimal_digit (digits_of 10 (n div 10))"
      "decimal_value (digits_of 10 (n div 10)) = n div 10"
      "digits_of 10 (n div 10) \<noteq> []"
      "hd (digits_of 10 (n div 10)) = CHR ''0'' \<longrightarrow> n div 10 = 0"
      using 1 by simp_all
    have m: "n mod 10 < 10" by simp
    from False have "n div 10 \<noteq> 0" by (simp add: div_eq_0_iff)
    with ih False show ?thesis
      using digit_char_decimal [OF m]
      by (auto simp: digits_of.simps [of 10 n] decimal_value_def)
  qed
qed

lemma two_digits_decimal:
  "n < 100 \<Longrightarrow> length (two_digits n) = 2 \<and> list_all is_decimal_digit (two_digits n)
     \<and> decimal_value (two_digits n) = n"
proof -
  assume "n < 100"
  then have "n div 10 < 10" "n mod 10 < 10" by simp_all
  from digit_char_decimal [OF this(1)] digit_char_decimal [OF this(2)]
  show ?thesis by (simp add: two_digits_def decimal_value_def)
qed

lemma hours_nonneg: "0 \<le> t \<Longrightarrow> 0 \<le> py_int (py_floordiv t 3600)"
  using py_floordiv_nonneg [of t 3600] by (simp add: py_int_floor)

lemma hours_field:
  assumes "0 \<le> t" "t < 2 ^ 53"
  shows "py_int (py_floordiv t 3600) = \<lfloor>t / 3600\<rfloor>"
proof -
  have "py_floordiv t (of_int 3600) = of_int \<lfloor>t / of_int 3600\<rfloor>"
    using assms by (intro py_floordiv_exact) simp_all
  then have "py_floordiv t 3600 = of_int \<lfloor>t / 3600\<rfloor>" by simp
  then show ?thesis by (simp add: py_int_def)
qed

lemma minutes_field:
  assumes "0 \<le> t"
  shows "py_int (py_floordiv (py_mod t 3600) 60) = \<lfloor>t / 60\<rfloor> mod 60"
proof -
  define x where "x = py_mod t 3600"
  have x: "x = t - 3600 * of_int \<lfloor>t / 3600\<rfloor>"
    using assms by (simp add: x_def py_mod_pos)
  have r: "0 \<le> x" "x < 3600" using py_mod_pos_range [of t 3600] assms by (simp_all add: x_def)
  then have "x < 2 ^ 53" by simp
  then have "py_floordiv x (of_int 60) = of_int \<lfloor>x / of_int 60\<rfloor>"
    using r(1) by (intro py_floordiv_exact) simp_all
  then have f: "py_floordiv x 60 = of_int \<lfloor>x / 60\<rfloor>" by simp
  have "\<lfloor>t / 3600\<rfloor> = \<lfloor>(t / 60) / of_int 60\<rfloor>" by simp
  also have "\<dots> = \<lfloor>t / 60\<rfloor> div 60" by (rule floor_divide_int) simp
  finally have q: "\<lfloor>t / 3600\<rfloor> = \<lfloor>t / 60\<rfloor> div 60" .
  have "x / 60 = t / 60 - of_int (60 * \<lfloor>t / 3600\<rfloor>)" by (simp add: x field_simps)
  then have "\<lfloor>x / 60\<rfloor> = \<lfloor>t / 60\<rfloor> - 60 * \<lfloor>t / 3600\<rfloor>" by (simp only: floor_diff_of_int)
  also have "\<dots> = \<lfloor>t / 60\<rfloor> mod 60" unfolding q by (simp add: minus_mult_div_eq_mod)
  finally have "\<lfloor>x / 60\<rfloor> = \<lfloor>t / 60\<rfloor> mod 60" .
  then show ?thesis by (simp add: x_def [symmetric] f py_int_def)
qed

lemma seconds_field:
  assumes "0 \<le> t"
  shows "py_int (py_mod t 60) = \<lfloor>t\<rfloor> mod 60"
proof -
  have q: "\<lfloor>t / 60\<rfloor> = \<lfloor>t\<rfloor> div 60" using floor_divide_int [of 60 t] by simp
  have "py_mod t 60 = t - of_int (60 * \<lfloor>t / 60\<rfloor>)" using assms by (simp add: py_mod_pos)
  then have "\<lfloor>py_mod t 60\<rfloor> = \<lfloor>t\<rfloor> - 60 * \<lfloor>t / 60\<rfloor>" by (simp only: floor_diff_of_int)
  also have "\<dots> = \<lfloor>t\<rfloor> mod 60" unfolding q by (simp add: minus_mult_div_eq_mod)
  finally have "\<lfloor>py_mod t 60\<rfloor> = \<lfloor>t\<rfloor> mod 60" .
  moreover have "0 \<le> py_mod t 60" using py_mod_pos_range [of t 60] assms by simp
  ultimately show ?thesis by (simp add: py_int_floor)
qed

lemma floor_between:
  fixes r :: rat
  assumes "of_int n \<le> r" "r \<le> of_int n + 1"
  shows "\<lfloor>r\<rfloor> = n \<or> \<lfloor>r\<rfloor> = n + 1"
proof -
  have "n \<le> \<lfloor>r\<rfloor>" using assms(1) by (simp only: le_floor_iff)
  moreover have "r < of_int (n + 2)" using assms(2) by simp
  then have "\<lfloor>r\<rfloor> < n + 2" by (simp only: floor_less_iff)
  ultimately show ?thesis by linarith
qed

lemma centiseconds_field:
  assumes "is_double t" "0 \<le> t"
  shows "0 \<le> py_int (fmul (py_mod t 1) 100) \<and> py_int (fmul (py_mod t 1) 100) < 100
    \<and> (py_int (fmul (py_mod t 1) 100) = \<lfloor>t * 100\<rfloor> mod 100
        \<or> py_int (fmul (py_mod t 1) 100) = \<lfloor>t * 100\<rfloor> mod 100 + 1)"
proof -
  define f where "f = t - of_int \<lfloor>t\<rfloor>"
  define y where "y = f * 100"
  have m: "py_mod t 1 = f" using assms(2) by (simp add: py_mod_pos f_def)
  have f0: "0 \<le> f" by (simp add: f_def)
  have f1: "f \<le> 1 - 1 / 2 ^ 53" unfolding f_def using assms by (rule double_frac_bound)
  have y0: "0 \<le> y" using f0 by (simp add: y_def)
  have y1: "y \<le> 100 - 100 / 2 ^ 53" using f1 by (simp add: y_def)
  have q: "\<lfloor>t\<rfloor> = \<lfloor>t * 100\<rfloor> div 100" using floor_divide_int [of 100 "t * 100"] by simp
  have "y = t * 100 - of_int (100 * \<lfloor>t\<rfloor>)" by (simp add: y_def f_def algebra_simps)
  then have "\<lfloor>y\<rfloor> = \<lfloor>t * 100\<rfloor> - 100 * \<lfloor>t\<rfloor>" by (simp only: floor_diff_of_int)
  also have "\<dots> = \<lfloor>t * 100\<rfloor> mod 100" unfolding q by (simp add: minus_mult_div_eq_mod)
  finally have fl: "\<lfloor>y\<rfloor> = \<lfloor>t * 100\<rfloor> mod 100" .
  have r0: "0 \<le> rnd y" using y0 by (rule rnd_nonneg)
  have c: "py_int (fmul (py_mod t 1) 100) = \<lfloor>rnd y\<rfloor>"
    using r0 by (simp add: m fmul_def y_def [symmetric] py_int_floor)
  have "of_int \<lfloor>y\<rfloor> \<le> rnd y \<and> rnd y \<le> of_int \<lfloor>y\<rfloor> + 1 \<and> rnd y < 100"
  proof (cases "y = 0")
    case True
    then show ?thesis by (simp add: rnd_def)
  next
    case False
    then have yp: "0 < y" using y0 by simp
    have "y < 2 powi 7" using y1 by simp
    then have u: "ulp_exp y \<le> 7 - 53" using yp by (intro ulp_exp_le) simp_all
    then have "ulp_exp y \<le> 0" by simp
    then have s: "of_int \<lfloor>y\<rfloor> \<le> rnd y \<and> rnd y \<le> of_int \<lfloor>y\<rfloor> + 1"
      using y0 by (intro rnd_sandwich)
    have "(2 :: rat) powi ulp_exp y \<le> 2 powi (- 46)"
      using u by (intro power_int_increasing) simp_all
    then have "(2 :: rat) powi ulp_exp y \<le> 1 / 2 ^ 46" by (simp add: power_int_minus inverse_eq_divide)
    moreover have "rnd y - y \<le> 2 powi ulp_exp y / 2" using rnd_error [of y] by linarith
    ultimately have "rnd y \<le> y + 1 / 2 ^ 47" by simp
    with y1 have "rnd y < 100" by simp
    with s show ?thesis by simp
  qed
  then have "\<lfloor>rnd y\<rfloor> = \<lfloor>y\<rfloor> \<or> \<lfloor>rnd y\<rfloor> = \<lfloor>y\<rfloor> + 1" "\<lfloor>rnd y\<rfloor> < 100"
    using floor_between [of "\<lfloor>y\<rfloor>" "rnd y"] by (simp_all add: floor_less_iff)
  moreover have "0 \<le> \<lfloor>rnd y\<rfloor>" using r0 by simp
  ultimately show ?thesis by (simp add: c fl)
qed

text \<open>
  Claim C8, as amended. For every double \<open>t\<close> of at least zero seconds, \<open>format_time_ass\<close>
  gives \<open>H:MM:SS.cc\<close>: the hours in decimal with no padding and no leading zero (they are
  \<open>\<lfloor>t / 3600\<rfloor>\<close> below \<open>2\<^sup>5\<^sup>3\<close> seconds), then the minutes \<open>\<lfloor>t / 60\<rfloor> mod 60\<close>, the seconds
  \<open>\<lfloor>t\<rfloor> mod 60\<close> and the centiseconds, each as exactly two decimal digits. The centiseconds
  are \<open>int((seconds % 1) * 100)\<close> as the doubles give it: below 100, and either the whole
  centiseconds \<open>\<lfloor>100 t\<rfloor> mod 100\<close> of \<open>t\<close> or one more, since the product is rounded before it
  is truncated.
\<close>

theorem format_time_ass_shape:
  "is_double t \<Longrightarrow> 0 \<le> t \<Longrightarrow>
     format_time_ass t =
       digits_of 10 (nat (py_int (py_floordiv t 3600))) @ '':''
       @ two_digits (nat (\<lfloor>t / 60\<rfloor> mod 60)) @ '':'' @ two_digits (nat (\<lfloor>t\<rfloor> mod 60)) @ ''.''
       @ two_digits (nat (py_int (fmul (py_mod t 1) 100)))
   \<and> 0 \<le> py_int (py_floordiv t 3600)
   \<and> (t < 2 ^ 53 \<longrightarrow> py_int (py_floordiv t 3600) = \<lfloor>t / 3600\<rfloor>)
   \<and> 0 \<le> py_int (fmul (py_mod t 1) 100) \<and> py_int (fmul (py_mod t 1) 100) < 100
   \<and> (py_int (fmul (py_mod t 1) 100) = \<lfloor>t * 100\<rfloor> mod 100
      \<or> py_int (fmul (py_mod t 1) 100) = \<lfloor>t * 100\<rfloor> mod 100 + 1)
   \<and> list_all is_decimal_digit (digits_of 10 (nat (py_int (py_floordiv t 3600))))
   \<and> decimal_value (digits_of 10 (nat (py_int (py_floordiv t 3600))))
       = nat (py_int (py_floordiv t 3600))
   \<and> digits_of 10 (nat (py_int (py_floordiv t 3600))) \<noteq> []
   \<and> (hd (digits_of 10 (nat (py_int (py_floordiv t 3600)))) = CHR ''0''
        \<longrightarrow> digits_of 10 (nat (py_int (py_floordiv t 3600))) = ''0'')
   \<and> (\<forall>n \<in> {nat (\<lfloor>t / 60\<rfloor> mod 60), nat (\<lfloor>t\<rfloor> mod 60), nat (py_int (fmul (py_mod t 1) 100))}.
         length (two_digits n) = 2 \<and> list_all is_decimal_digit (two_digits n)
         \<and> decimal_value (two_digits n) = n)"
proof -
  assume d: "is_double t" and t: "0 \<le> t"
  define hh where "hh = py_int (py_floordiv t 3600)"
  define cc where "cc = py_int (fmul (py_mod t 1) 100)"
  define h where "h = nat hh"
  define m where "m = nat (\<lfloor>t / 60\<rfloor> mod 60)"
  define s where "s = nat (\<lfloor>t\<rfloor> mod 60)"
  define c where "c = nat cc"
  have hh: "0 \<le> hh" using t by (simp add: hh_def hours_nonneg)
  have hx: "t < 2 ^ 53 \<longrightarrow> hh = \<lfloor>t / 3600\<rfloor>" using t by (simp add: hh_def hours_field)
  have cc: "0 \<le> cc" "cc < 100" "cc = \<lfloor>t * 100\<rfloor> mod 100 \<or> cc = \<lfloor>t * 100\<rfloor> mod 100 + 1"
    using centiseconds_field [OF d t] by (simp_all add: cc_def)
  have ranges: "m < 60" "s < 60" "c < 100"
    using cc by (simp_all add: m_def s_def c_def nat_less_iff)
  have "py_int (py_floordiv t 3600) = int h" using hh by (simp add: h_def hh_def)
  moreover have "py_int (py_floordiv (py_mod t 3600) 60) = int m"
    using t by (simp add: minutes_field m_def)
  moreover have "py_int (py_mod t 60) = int s" using t by (simp add: seconds_field s_def)
  moreover have "py_int (fmul (py_mod t 1) 100) = int c" using cc by (simp add: c_def cc_def)
  ultimately have "format_time_ass t =
      str_int (int h) @ '':'' @ format_02d (int m) @ '':'' @ format_02d (int s) @ ''.''
      @ format_02d (int c)"
    by (simp add: format_time_ass_def)
  then have eq: "format_time_ass t =
      digits_of 10 h @ '':'' @ two_digits m @ '':'' @ two_digits s @ ''.'' @ two_digits c"
    using ranges by (simp add: str_int_def format_02d_two_digits)
  have zero: "hd (digits_of 10 h) = CHR ''0'' \<longrightarrow> digits_of 10 h = ''0''"
    using digits_of_decimal [of h] by (auto simp: digits_of.simps [of 10 0] digit_char_def)
  have fields: "\<forall>n \<in> {m, s, c}. length (two_digits n) = 2 \<and> list_all is_decimal_digit (two_digits n)
         \<and> decimal_value (two_digits n) = n"
    using ranges two_digits_decimal [of m] two_digits_decimal [of s] two_digits_decimal [of c]
    by simp
  show ?thesis
    using eq zero fields digits_of_decimal [of h] hh hx cc
    unfolding h_def m_def s_def c_def hh_def cc_def by blast
qed

theorem format_time_ass_shape_witness:
  "is_double (rnd (366151 / 100)) \<and> 0 \<le> rnd (366151 / 100)
   \<and> format_time_ass (rnd (366151 / 100)) = ''1:01:01.51''
   \<and> py_int (fmul (py_mod (rnd (366151 / 100)) 1) 100) = 51"
proof -
  have a: "is_double (rnd (366151 / 100))" by code_simp
  have b: "0 \<le> rnd (366151 / 100)" by code_simp
  have c: "py_int (fmul (py_mod (rnd (366151 / 100)) 1) 100) = 51" by code_simp
  have d: "\<lfloor>rnd (366151 / 100) / 60\<rfloor> mod 60 = 1" by code_simp
  have e: "\<lfloor>rnd (366151 / 100)\<rfloor> mod 60 = 1" by code_simp
  have f: "py_int (py_floordiv (rnd (366151 / 100)) 3600) = 1" by code_simp
  show ?thesis
    using format_time_ass_shape [OF a b] a b
    by (simp add: c d e f two_digits_def digit_char_def digits_of.simps [of 10 "Suc 0"])
qed

text \<open>
  Claim C8 as worded puts the time at centisecond precision. The double nearest to 0.29 is
  written \<open>.28\<close>, and the double nearest to 0.15, which lies below 0.15 and has 14 whole
  centiseconds, is written \<open>.15\<close>.
\<close>

theorem format_time_ass_centiseconds_counterexample:
  "format_time_ass (rnd (29 / 100)) = ''0:00:00.28''
   \<and> format_time_ass (rnd (15 / 100)) = ''0:00:00.15''
   \<and> rnd (15 / 100) < 15 / 100 \<and> \<lfloor>rnd (15 / 100) * 100\<rfloor> = 14"
  by code_simp

section \<open>Colour transitions of the words\<close>

lemma chunk_loop_nonempty:
  "\<forall>c \<in> set chunks. c \<noteq> [] \<Longrightarrow> \<forall>c \<in> set (chunk_loop m chunks cur ws). c \<noteq> []"
proof (induction ws arbitrary: chunks cur)
  case Nil
  then show ?case by simp
next
  case (Cons w ws)
  have "\<forall>c \<in> set (chunks @ [cur @ [w]]). c \<noteq> []" using Cons.prems by simp
  from Cons.IH [OF this] Cons.IH [OF Cons.prems] show ?case
    by (simp add: Let_def)
qed

lemma chunk_words_nonempty: "filter (\<lambda>chunk. chunk \<noteq> []) (chunk_words ws m) = chunk_words ws m"
  using chunk_loop_nonempty [of "[]" m "[]" ws] by (simp add: chunk_words_def)

lemma collect_parts_map:
  "(\<And>x. x \<in> set xs \<Longrightarrow> body x = Inr (f x)) \<Longrightarrow> collect_parts body xs = Inr (map f xs)"
  by (induction xs) simp_all

lemma karaoke_part_markup:
  assumes "hex_to_ass_color (color_primary (theme_colors (theme self))) = Inr p"
    and "hex_to_ass_color (color_highlight (theme_colors (theme self))) = Inr h"
    and "hl_enabled (theme_highlight (theme self))"
  shows "karaoke_part self chunk_start w =
     Inr (color_markup p h 0 (rel_ms chunk_start (wt_start w)) (rel_ms chunk_start (wt_end w))
            (wt_word w))"
  using assms by (simp add: karaoke_part_def color_markup_def rel_ms_def Let_def)

lemma per_word_part_markup:
  assumes "hex_to_ass_color (color_primary (theme_colors (theme self))) = Inr p"
    and "hex_to_ass_color (color_highlight (theme_colors (theme self))) = Inr h"
  shows "per_word_part self chunk_start w =
     Inr (color_markup p h 50 (rel_ms chunk_start (wt_start w)) (rel_ms chunk_start (wt_end w))
            (wt_word w))"
  using assms by (simp add: per_word_part_def color_markup_def rel_ms_def Let_def)

lemma karaoke_chunk_line_event:
  assumes "hex_to_ass_color (color_primary (theme_colors (theme self))) = Inr p"
    and "hex_to_ass_color (color_highlight (theme_colors (theme self))) = Inr h"
    and "hl_enabled (theme_highlight (theme self))"
  shows "karaoke_chunk_line self chunk = Inr (word_level_event (karaoke_preamble self) 0 p h chunk)"
  by (simp add: karaoke_chunk_line_def Let_def word_level_event_def dialogue_line_def rel_ms_def
      collect_parts_map [where f = "\<lambda>w. color_markup p h 0
          (rel_ms (wt_start (hd chunk)) (wt_start w)) (rel_ms (wt_start (hd chunk)) (wt_end w))
          (wt_word w)"] karaoke_part_markup [OF assms])

lemma per_word_chunk_line_event:
  assumes "hex_to_ass_color (color_primary (theme_colors (theme self))) = Inr p"
    and "hex_to_ass_color (color_highlight (theme_colors (theme self))) = Inr h"
  shows "per_word_chunk_line self chunk =
     Inr (word_level_event (\<lambda>duration_ms. per_word_preamble self) 50 p h chunk)"
  by (simp add: per_word_chunk_line_def Let_def word_level_event_def dialogue_line_def rel_ms_def
      collect_parts_map [where f = "\<lambda>w. color_markup p h 50
          (rel_ms (wt_start (hd chunk)) (wt_start w)) (rel_ms (wt_start (hd chunk)) (wt_end w))
          (wt_word w)"] per_word_part_markup [OF assms])

text \<open>
  Claim C4, as amended. For every segment with word timings, when both colours convert:
  under the karaoke strategy (highlight enabled, background style not \<open>per_word\<close>) each
  chunk is one event in which every word carries transitions of zero width at its start and
  at its end; under the per-word-background strategy (background style \<open>per_word\<close>) the two
  transitions are 50 milliseconds wide, from the same two times. The times are those of
  \<open>rel_ms\<close>: the whole milliseconds of \<open>int((t - chunk_start) * 1000)\<close>, the difference and
  the product rounded as the doubles round them.
\<close>

theorem word_markup_transitions:
  assumes "hex_to_ass_color (color_primary (theme_colors (theme self))) = Inr p"
    and "hex_to_ass_color (color_highlight (theme_colors (theme self))) = Inr h"
    and "calculate_word_timings segment \<noteq> []"
  shows "(hl_enabled (theme_highlight (theme self))
            \<and> bg_style (theme_background (theme self)) \<noteq> ''per_word'' \<longrightarrow>
          render_segment self segment =
            Inr (concat (map (word_level_event (karaoke_preamble self) 0 p h)
                   (chunk_words (calculate_word_timings segment)
                      (layout_max_words_per_line (theme_layout (theme self)))))))
       \<and> (bg_style (theme_background (theme self)) = ''per_word'' \<longrightarrow>
          render_segment self segment =
            Inr (concat (map (word_level_event (\<lambda>duration_ms. per_word_preamble self) 50 p h)
                   (chunk_words (calculate_word_timings segment)
                      (layout_max_words_per_line (theme_layout (theme self)))))))
       \<and> color_markup p h 0 s e word =
            ''{'' @ bs @ ''c'' @ p @ bs @ ''t('' @ str_int s @ '','' @ str_int s @ '','' @ bs @ ''c''
            @ h @ '')'' @ bs @ ''t('' @ str_int e @ '','' @ str_int e @ '','' @ bs @ ''c'' @ p
            @ '')}'' @ word
       \<and> color_markup p h 50 s e word =
            ''{'' @ bs @ ''c'' @ p @ bs @ ''t('' @ str_int s @ '','' @ str_int (s + 50) @ '','' @ bs
            @ ''c'' @ h @ '')'' @ bs @ ''t('' @ str_int e @ '','' @ str_int (e + 50) @ '','' @ bs
            @ ''c'' @ p @ '')}'' @ word"
proof (intro conjI impI)
  assume "hl_enabled (theme_highlight (theme self))
            \<and> bg_style (theme_background (theme self)) \<noteq> ''per_word''"
  then show "render_segment self segment =
            Inr (concat (map (word_level_event (karaoke_preamble self) 0 p h)
                   (chunk_words (calculate_word_timings segment)
                      (layout_max_words_per_line (theme_layout (theme self))))))"
    using assms(3)
    by (simp add: render_segment_def render_segment_karaoke_def chunk_words_nonempty
        collect_parts_map [where f = "word_level_event (karaoke_preamble self) 0 p h"]
        karaoke_chunk_line_event [OF assms(1,2)])
next
  assume "bg_style (theme_background (theme self)) = ''per_word''"
  then show "render_segment self segment =
            Inr (concat (map (word_level_event (\<lambda>duration_ms. per_word_preamble self) 50 p h)
                   (chunk_words (calculate_word_timings segment)
                      (layout_max_words_per_line (theme_layout (theme self))))))"
    using assms(3)
    by (simp add: render_segment_def render_segment_per_word_background_def chunk_words_nonempty
        collect_parts_map [where f = "word_level_event (\<lambda>duration_ms. per_word_preamble self) 50 p h"]
        per_word_chunk_line_event [OF assms(1,2)])
qed (simp_all add: color_markup_def)

theorem word_markup_transitions_witness:
  "hex_to_ass_color (color_primary (theme_colors (theme (init_renderer default_theme 1080 1920))))
     = Inr ''&H00FFFFFF''
   \<and> hex_to_ass_color (color_highlight (theme_colors (theme (init_renderer default_theme 1080 1920))))
     = Inr ''&H0088FF00''
   \<and> calculate_word_timings example_segment \<noteq> []
   \<and> hl_enabled (theme_highlight (theme (init_renderer default_theme 1080 1920)))
   \<and> bg_style (theme_background (theme (init_renderer default_theme 1080 1920))) \<noteq> ''per_word''
   \<and> render_segment (init_renderer default_theme 1080 1920) example_segment =
       Inr (word_level_event (karaoke_preamble (init_renderer default_theme 1080 1920)) 0
              ''&H00FFFFFF'' ''&H0088FF00''
              [\<lparr>wt_word = ''hi'', wt_start = 1, wt_end = rnd (7 / 5)\<rparr>,
               \<lparr>wt_word = ''there'', wt_start = rnd (7 / 5), wt_end = 2\<rparr>])
   \<and> hex_to_ass_color (color_primary (theme_colors (theme (init_renderer per_word_theme 1080 1920))))
     = Inr ''&H00FFFFFF''
   \<and> hex_to_ass_color (color_highlight (theme_colors (theme (init_renderer per_word_theme 1080 1920))))
     = Inr ''&H0088FF00''
   \<and> bg_style (theme_background (theme (init_renderer per_word_theme 1080 1920))) = ''per_word''
   \<and> render_segment (init_renderer per_word_theme 1080 1920) example_segment =
       Inr (word_level_event (\<lambda>duration_ms. per_word_preamble (init_renderer per_word_theme 1080 1920))
              50 ''&H00FFFFFF'' ''&H0088FF00''
              [\<lparr>wt_word = ''hi'', wt_start = 1, wt_end = rnd (7 / 5)\<rparr>,
               \<lparr>wt_word = ''there'', wt_start = rnd (7 / 5), wt_end = 2\<rparr>])"
proof -
  have p: "hex_to_ass_color (color_primary (theme_colors (theme (init_renderer default_theme 1080 1920))))
     = Inr ''&H00FFFFFF''"
    by code_simp
  have h: "hex_to_ass_color (color_highlight (theme_colors (theme (init_renderer default_theme 1080 1920))))
     = Inr ''&H0088FF00''"
    by code_simp
  have p': "hex_to_ass_color (color_primary (theme_colors (theme (init_renderer per_word_theme 1080 1920))))
     = Inr ''&H00FFFFFF''"
    by code_simp
  have h': "hex_to_ass_color (color_highlight (theme_colors (theme (init_renderer per_word_theme 1080 1920))))
     = Inr ''&H0088FF00''"
    by code_simp
  have w: "calculate_word_timings example_segment =
      [\<lparr>wt_word = ''hi'', wt_start = 1, wt_end = rnd (7 / 5)\<rparr>,
       \<lparr>wt_word = ''there'', wt_start = rnd (7 / 5), wt_end = 2\<rparr>]"
    by (simp add: calculate_word_timings_def example_segment_def opt_get_def strip_def is_space_def)
  then have ne: "calculate_word_timings example_segment \<noteq> []" by simp
  have c: "chunk_words [\<lparr>wt_word = ''hi'', wt_start = 1, wt_end = rnd (7 / 5)\<rparr>,
       \<lparr>wt_word = ''there'', wt_start = rnd (7 / 5), wt_end = 2\<rparr>] 5 =
      [[\<lparr>wt_word = ''hi'', wt_start = 1, wt_end = rnd (7 / 5)\<rparr>,
       \<lparr>wt_word = ''there'', wt_start = rnd (7 / 5), wt_end = 2\<rparr>]]"
    by (simp add: chunk_words_def)
  have m: "layout_max_words_per_line (theme_layout (theme (init_renderer default_theme 1080 1920))) = 5"
    "layout_max_words_per_line (theme_layout (theme (init_renderer per_word_theme 1080 1920))) = 5"
    "hl_enabled (theme_highlight (theme (init_renderer default_theme 1080 1920)))"
    "bg_style (theme_background (theme (init_renderer default_theme 1080 1920))) \<noteq> ''per_word''"
    "bg_style (theme_background (theme (init_renderer per_word_theme 1080 1920))) = ''per_word''"
    by (simp_all add: init_renderer_def default_theme_def per_word_theme_def)
  show ?thesis
    using word_markup_transitions [OF p h ne, of 0 0 "[]"]
      word_markup_transitions [OF p' h' ne, of 0 0 "[]"]
    by (simp add: p h p' h' w c m)
qed

text \<open>
  Claim C4 as worded puts the transitions exactly at the relative times of the word. A word
  that ends at 1.4 seconds in a chunk that starts at 1.0 seconds, 400 milliseconds later,
  has its transition at 399; and 0.15 seconds from 0 give 150, though the double nearest to
  0.15 lies below it and has 149 whole milliseconds.
\<close>

theorem word_markup_milliseconds_counterexample:
  "rel_ms 1 (rnd (7 / 5)) = 399 \<and> (7 / 5 - 1) * 1000 = (400 :: rat)
   \<and> karaoke_part (init_renderer default_theme 1080 1920) 1
        \<lparr>wt_word = ''hi'', wt_start = 1, wt_end = rnd (7 / 5)\<rparr>
       = Inr (color_markup ''&H00FFFFFF'' ''&H0088FF00'' 0 0 399 ''hi'')
   \<and> per_word_part (init_renderer per_word_theme 1080 1920) 1
        \<lparr>wt_word = ''hi'', wt_start = 1, wt_end = rnd (7 / 5)\<rparr>
       = Inr (color_markup ''&H00FFFFFF'' ''&H0088FF00'' 50 0 399 ''hi'')
   \<and> rel_ms 0 (rnd (15 / 100)) = 150 \<and> \<lfloor>rnd (15 / 100) * 1000\<rfloor> = 149"
  by code_simp

section \<open>Errors: colours fail, effect names do not\<close>

lemma generate_ass_header_primary:
  "wrong_length (color_primary (theme_colors (theme self))) \<Longrightarrow>
   generate_ass_header self
     = Inl (InvalidHexColor (lstrip_chars CHR ''#'' (color_primary (theme_colors (theme self)))))"
  by (simp add: generate_ass_header_def hex_to_ass_color_wrong_length)

lemma generate_ass_header_highlight:
  assumes "valid_hex_color (color_primary (theme_colors (theme self)))"
    and "wrong_length (color_highlight (theme_colors (theme self)))"
  shows "generate_ass_header self
     = Inl (InvalidHexColor (lstrip_chars CHR ''#'' (color_highlight (theme_colors (theme self)))))"
  using hex_to_ass_color_valid [OF assms(1)] assms(2)
  by (auto simp: generate_ass_header_def hex_to_ass_color_wrong_length)

lemma generate_ass_header_outline:
  assumes "valid_hex_color (color_primary (theme_colors (theme self)))"
    and "valid_hex_color (color_highlight (theme_colors (theme self)))"
    and "wrong_length (color_outline (theme_colors (theme self)))"
  shows "generate_ass_header self
     = Inl (InvalidHexColor (lstrip_chars CHR ''#'' (color_outline (theme_colors (theme self)))))"
  using hex_to_ass_color_valid [OF assms(1)] hex_to_ass_color_valid [OF assms(2)] assms(3)
  by (auto simp: generate_ass_header_def hex_to_ass_color_wrong_length)

lemma generate_ass_header_background:
  assumes "valid_hex_color (color_primary (theme_colors (theme self)))"
    and "valid_hex_color (color_highlight (theme_colors (theme self)))"
    and "valid_hex_color (color_outline (theme_colors (theme self)))"
    and "wrong_length (color_background (theme_colors (theme self)))"
  shows "generate_ass_header self
     = Inl (InvalidHexColor (lstrip_chars CHR ''#'' (color_background (theme_colors (theme self)))))"
  using hex_to_ass_color_valid [OF assms(1)] hex_to_ass_color_valid [OF assms(2)]
    hex_to_ass_color_valid [OF assms(3)] assms(4)
  by (auto simp: generate_ass_header_def hex_to_ass_color_wrong_length)

lemma render_segments_header_error:
  "generate_ass_header self = Inl e \<Longrightarrow> render_segments self segments = Inl e"
  by (simp add: render_segments_def)

lemma unknown_entry_effect:
  "name \<notin> set [''none'', ''fade'', ''pop'', ''slide_up'', ''slide_down'', ''bounce''] \<Longrightarrow>
   get_entry_effect name d = []"
  by (simp add: get_entry_effect_def entry_effects_def dict_get_def)

lemma unknown_exit_effect:
  "name \<notin> set [''none'', ''fade'', ''pop'', ''slide_up'', ''slide_down'', ''bounce''] \<Longrightarrow>
   get_exit_effect name d total_ms = []"
  by (simp add: get_exit_effect_def exit_effects_def dict_get_def)

lemma collect_parts_ok:
  "(\<And>x. x \<in> set xs \<Longrightarrow> \<exists>y. body x = Inr y) \<Longrightarrow> \<exists>ys. collect_parts body xs = Inr ys"
proof (induction xs)
  case Nil
  then show ?case by simp
next
  case (Cons x xs)
  then obtain y ys where "body x = Inr y" "collect_parts body xs = Inr ys"
    by (metis list.set_intros)
  then show ?case by simp
qed

lemma render_segment_ok:
  assumes "valid_hex_color (color_primary (theme_colors (theme self)))"
    and "valid_hex_color (color_highlight (theme_colors (theme self)))"
  shows "\<exists>out. render_segment self segment = Inr out"
proof -
  obtain p where p: "hex_to_ass_color (color_primary (theme_colors (theme self))) = Inr p"
    using hex_to_ass_color_valid [OF assms(1)] by blast
  obtain h where h: "hex_to_ass_color (color_highlight (theme_colors (theme self))) = Inr h"
    using hex_to_ass_color_valid [OF assms(2)] by blast
  show ?thesis
  proof (cases "bg_style (theme_background (theme self)) = ''per_word''")
    case True
    then show ?thesis
      by (simp add: render_segment_def render_segment_per_word_background_def Let_def
          chunk_words_nonempty per_word_chunk_line_event [OF p h]
          collect_parts_map [where f = "word_level_event (\<lambda>duration_ms. per_word_preamble self) 50 p h"])
  next
    case False
    then show ?thesis
      by (cases "hl_enabled (theme_highlight (theme self))")
        (simp_all add: render_segment_def render_segment_karaoke_def Let_def chunk_words_nonempty
          karaoke_chunk_line_event [OF p h]
          collect_parts_map [where f = "word_level_event (karaoke_preamble self) 0 p h"])
  qed
qed

lemma render_segments_ok:
  assumes "valid_hex_color (color_primary (theme_colors (theme self)))"
    and "valid_hex_color (color_highlight (theme_colors (theme self)))"
    and "valid_hex_color (color_outline (theme_colors (theme self)))"
    and "valid_hex_color (color_background (theme_colors (theme self)))"
  shows "\<exists>doc. render_segments self segments = Inr doc"
proof -
  obtain hd where hd: "generate_ass_header self = Inr hd"
    using hex_to_ass_color_valid [OF assms(1)] hex_to_ass_color_valid [OF assms(2)]
      hex_to_ass_color_valid [OF assms(3)] hex_to_ass_color_valid [OF assms(4)]
    by (auto simp: generate_ass_header_def)
  obtain blocks where "collect_parts (render_segment self) segments = Inr blocks"
    using collect_parts_ok [of segments "render_segment self"]
      render_segment_ok [OF assms(1) assms(2)] by blast
  with hd show ?thesis by (simp add: render_segments_def)
qed

lemma render_segment_simple_unknown:
  assumes "anim_entry (theme_animation (theme self))
          \<notin> set [''none'', ''fade'', ''pop'', ''slide_up'', ''slide_down'', ''bounce'']"
    and "anim_exit (theme_animation (theme self))
          \<notin> set [''none'', ''fade'', ''pop'', ''slide_up'', ''slide_down'', ''bounce'']"
  shows "render_segment_simple self segment =
     dialogue_line (format_time_ass (opt_get (seg_start segment) 0))
       (format_time_ass (opt_get (seg_end segment) 0)) (strip (opt_get (seg_text segment) []))"
  using assms by (simp add: render_segment_simple_def Let_def unknown_entry_effect unknown_exit_effect)

lemma generate_ass_header_wrong_length:
  assumes "wrong_length (color_primary (theme_colors (theme self)))
      \<or> wrong_length (color_highlight (theme_colors (theme self)))
      \<or> wrong_length (color_outline (theme_colors (theme self)))
      \<or> wrong_length (color_background (theme_colors (theme self)))"
  shows "\<exists>e. generate_ass_header self = Inl e"
  using assms
  by (auto simp: generate_ass_header_def hex_to_ass_color_wrong_length split: sum.splits)

lemma per_word_preamble_fade:
  "per_word_preamble self =
     (if anim_entry (theme_animation (theme self)) = ''none''
         \<and> anim_exit (theme_animation (theme self)) = ''none'' then []
      else ''{''
        @ (if anim_entry (theme_animation (theme self)) = ''none'' then []
           else bs @ ''fad('' @ str_int (anim_duration (theme_animation (theme self))) @ '',0)'')
        @ (if anim_exit (theme_animation (theme self)) = ''none'' then []
           else bs @ ''fad(0,'' @ str_int (anim_duration (theme_animation (theme self))) @ '')'')
        @ ''}'')"
  by (simp add: per_word_preamble_def Let_def bs_def)

lemma invalid_literal_example: "hex_to_ass_color ''GGGGGG'' = Inl (InvalidLiteral ''GG'')"
  by code_simp

text \<open>
  Claim C9, as amended. A primary, highlight, outline or background colour of the wrong
  length makes the whole render fail, whatever the other colours and the segments: the
  four colours are converted in this order before anything is rendered, and the error is
  that of the first of them that does not convert, so it is the error that
  \<open>hex_to_ass_color\<close> raises for the wrong length when the colours before it are valid.
  Both errors of \<open>hex_to_ass_color\<close> are \<open>ValueError\<close>s.
  An entry or exit effect name outside none, fade, pop, slide\_up, slide\_down, bounce
  raises nothing: with these four colours valid the render returns a document whatever the
  names. The effect catalog returns the empty fragment for such a name, so the plain
  strategy adds no markup to the text and the preamble of the karaoke strategy is empty when
  both names are unknown. The per-word-background strategy does not consult the catalog:
  its preamble is a fade in over the duration for every entry name other than none and a
  fade out for every exit name other than none, unknown names included.
\<close>

theorem error_asymmetry:
  "(wrong_length c \<longrightarrow> hex_to_ass_color c = Inl (InvalidHexColor (lstrip_chars CHR ''#'' c)))
   \<and> (wrong_length (color_primary (theme_colors (theme self))) \<longrightarrow>
        render_segments self segments =
          Inl (InvalidHexColor (lstrip_chars CHR ''#'' (color_primary (theme_colors (theme self))))))
   \<and> (valid_hex_color (color_primary (theme_colors (theme self)))
        \<and> wrong_length (color_highlight (theme_colors (theme self))) \<longrightarrow>
        render_segments self segments =
          Inl (InvalidHexColor (lstrip_chars CHR ''#'' (color_highlight (theme_colors (theme self))))))
   \<and> (valid_hex_color (color_primary (theme_colors (theme self)))
        \<and> valid_hex_color (color_highlight (theme_colors (theme self)))
        \<and> wrong_length (color_outline (theme_colors (theme self))) \<longrightarrow>
        render_segments self segments =
          Inl (InvalidHexColor (lstrip_chars CHR ''#'' (color_outline (theme_colors (theme self))))))
   \<and> (valid_hex_color (color_primary (theme_colors (theme self)))
        \<and> valid_hex_color (color_highlight (theme_colors (theme self)))
        \<and> valid_hex_color (color_outline (theme_colors (theme self)))
        \<and> wrong_length (color_background (theme_colors (theme self))) \<longrightarrow>
        render_segments self segments =
          Inl (InvalidHexColor (lstrip_chars CHR ''#'' (color_background (theme_colors (theme self))))))
   \<and> (name \<notin> set [''none'', ''fade'', ''pop'', ''slide_up'', ''slide_down'', ''bounce''] \<longrightarrow>
        get_entry_effect name d = [] \<and> get_exit_effect name d total_ms = [])
   \<and> (anim_entry (theme_animation (theme self))
          \<notin> set [''none'', ''fade'', ''pop'', ''slide_up'', ''slide_down'', ''bounce'']
        \<and> anim_exit (theme_animation (theme self))
          \<notin> set [''none'', ''fade'', ''pop'', ''slide_up'', ''slide_down'', ''bounce''] \<longrightarrow>
        karaoke_preamble self total_ms = []
        \<and> render_segment_simple self segment =
            dialogue_line (format_time_ass (opt_get (seg_start segment) 0))
              (format_time_ass (opt_get (seg_end segment) 0))
              (strip (opt_get (seg_text segment) [])))
   \<and> (valid_hex_color (color_primary (theme_colors (theme self)))
        \<and> valid_hex_color (color_highlight (theme_colors (theme self)))
        \<and> valid_hex_color (color_outline (theme_colors (theme self)))
        \<and> valid_hex_color (color_background (theme_colors (theme self))) \<longrightarrow>
        (\<exists>doc. render_segments self segments = Inr doc))
   \<and> (wrong_length (color_primary (theme_colors (theme self)))
        \<or> wrong_length (color_highlight (theme_colors (theme self)))
        \<or> wrong_length (color_outline (theme_colors (theme self)))
        \<or> wrong_length (color_background (theme_colors (theme self))) \<longrightarrow>
        (\<exists>e. render_segments self segments = Inl e))
   \<and> per_word_preamble self =
       (if anim_entry (theme_animation (theme self)) = ''none''
           \<and> anim_exit (theme_animation (theme self)) = ''none'' then []
        else ''{''
          @ (if anim_entry (theme_animation (theme self)) = ''none'' then []
             else bs @ ''fad('' @ str_int (anim_duration (theme_animation (theme self))) @ '',0)'')
          @ (if anim_exit (theme_animation (theme self)) = ''none'' then []
             else bs @ ''fad(0,'' @ str_int (anim_duration (theme_animation (theme self))) @ '')'')
          @ ''}'')
   \<and> (hex_to_ass_color (color_primary (theme_colors (theme self))) = Inl e \<longrightarrow>
        render_segments self segments = Inl e)
   \<and> (hex_to_ass_color (color_primary (theme_colors (theme self))) = Inr p
        \<and> hex_to_ass_color (color_highlight (theme_colors (theme self))) = Inl e \<longrightarrow>
        render_segments self segments = Inl e)
   \<and> (hex_to_ass_color (color_primary (theme_colors (theme self))) = Inr p
        \<and> hex_to_ass_color (color_highlight (theme_colors (theme self))) = Inr h
        \<and> hex_to_ass_color (color_outline (theme_colors (theme self))) = Inl e \<longrightarrow>
        render_segments self segments = Inl e)
   \<and> (hex_to_ass_color (color_primary (theme_colors (theme self))) = Inr p
        \<and> hex_to_ass_color (color_highlight (theme_colors (theme self))) = Inr h
        \<and> hex_to_ass_color (color_outline (theme_colors (theme self))) = Inr ol
        \<and> hex_to_ass_color (color_background (theme_colors (theme self))) = Inl e \<longrightarrow>
        render_segments self segments = Inl e)"
proof (intro conjI impI)
  assume "wrong_length c"
  then show "hex_to_ass_color c = Inl (InvalidHexColor (lstrip_chars CHR ''#'' c))"
    by (rule hex_to_ass_color_wrong_length)
next
  assume "wrong_length (color_primary (theme_colors (theme self)))"
  then show "render_segments self segments =
          Inl (InvalidHexColor (lstrip_chars CHR ''#'' (color_primary (theme_colors (theme self)))))"
    by (intro render_segments_header_error generate_ass_header_primary)
next
  assume "valid_hex_color (color_primary (theme_colors (theme self)))
        \<and> wrong_length (color_highlight (theme_colors (theme self)))"
  then show "render_segments self segments =
          Inl (InvalidHexColor (lstrip_chars CHR ''#'' (color_highlight (theme_colors (theme self)))))"
    by (intro render_segments_header_error generate_ass_header_highlight) simp_all
next
  assume "valid_hex_color (color_primary (theme_colors (theme self)))
        \<and> valid_hex_color (color_highlight (theme_colors (theme self)))
        \<and> wrong_length (color_outline (theme_colors (theme self)))"
  then show "render_segments self segments =
          Inl (InvalidHexColor (lstrip_chars CHR ''#'' (color_outline (theme_colors (theme self)))))"
    by (intro render_segments_header_error generate_ass_header_outline) simp_all
next
  assume "valid_hex_color (color_primary (theme_colors (theme self)))
        \<and> valid_hex_color (color_highlight (theme_colors (theme self)))
        \<and> valid_hex_color (color_outline (theme_colors (theme self)))
        \<and> wrong_length (color_background (theme_colors (theme self)))"
  then show "render_segments self segments =
          Inl (InvalidHexColor (lstrip_chars CHR ''#'' (color_background (theme_colors (theme self)))))"
    by (intro render_segments_header_error generate_ass_header_background) simp_all
next
  assume "name \<notin> set [''none'', ''fade'', ''pop'', ''slide_up'', ''slide_down'', ''bounce'']"
  then show "get_entry_effect name d = []" by (rule unknown_entry_effect)
next
  assume "name \<notin> set [''none'', ''fade'', ''pop'', ''slide_up'', ''slide_down'', ''bounce'']"
  then show "get_exit_effect name d total_ms = []" by (rule unknown_exit_effect)
next
  assume "anim_entry (theme_animation (theme self))
          \<notin> set [''none'', ''fade'', ''pop'', ''slide_up'', ''slide_down'', ''bounce'']
        \<and> anim_exit (theme_animation (theme self))
          \<notin> set [''none'', ''fade'', ''pop'', ''slide_up'', ''slide_down'', ''bounce'']"
  then show "karaoke_preamble self total_ms = []"
    by (simp add: karaoke_preamble_def unknown_entry_effect unknown_exit_effect)
next
  assume "anim_entry (theme_animation (theme self))
          \<notin> set [''none'', ''fade'', ''pop'', ''slide_up'', ''slide_down'', ''bounce'']
        \<and> anim_exit (theme_animation (theme self))
          \<notin> set [''none'', ''fade'', ''pop'', ''slide_up'', ''slide_down'', ''bounce'']"
  then show "render_segment_simple self segment =
            dialogue_line (format_time_ass (opt_get (seg_start segment) 0))
              (format_time_ass (opt_get (seg_end segment) 0))
              (strip (opt_get (seg_text segment) []))"
    by (intro render_segment_simple_unknown) simp_all
next
  assume "valid_hex_color (color_primary (theme_colors (theme self)))
        \<and> valid_hex_color (color_highlight (theme_colors (theme self)))
        \<and> valid_hex_color (color_outline (theme_colors (theme self)))
        \<and> valid_hex_color (color_background (theme_colors (theme self)))"
  then show "\<exists>doc. render_segments self segments = Inr doc"
    by (intro render_segments_ok) simp_all
next
  assume "wrong_length (color_primary (theme_colors (theme self)))
        \<or> wrong_length (color_highlight (theme_colors (theme self)))
        \<or> wrong_length (color_outline (theme_colors (theme self)))
        \<or> wrong_length (color_background (theme_colors (theme self)))"
  then obtain e where "generate_ass_header self = Inl e"
    using generate_ass_header_wrong_length by blast
  then show "\<exists>e. render_segments self segments = Inl e"
    by (simp add: render_segments_def)
next
  show "per_word_preamble self =
       (if anim_entry (theme_animation (theme self)) = ''none''
           \<and> anim_exit (theme_animation (theme self)) = ''none'' then []
        else ''{''
          @ (if anim_entry (theme_animation (theme self)) = ''none'' then []
             else bs @ ''fad('' @ str_int (anim_duration (theme_animation (theme self))) @ '',0)'')
          @ (if anim_exit (theme_animation (theme self)) = ''none'' then []
             else bs @ ''fad(0,'' @ str_int (anim_duration (theme_animation (theme self))) @ '')'')
          @ ''}'')"
    by (rule per_word_preamble_fade)
next
  assume "hex_to_ass_color (color_primary (theme_colors (theme self))) = Inl e"
  then show "render_segments self segments = Inl e"
    by (simp add: render_segments_def generate_ass_header_def)
next
  assume "hex_to_ass_color (color_primary (theme_colors (theme self))) = Inr p
        \<and> hex_to_ass_color (color_highlight (theme_colors (theme self))) = Inl e"
  then show "render_segments self segments = Inl e"
    by (simp add: render_segments_def generate_ass_header_def)
next
  assume "hex_to_ass_color (color_primary (theme_colors (theme self))) = Inr p
        \<and> hex_to_ass_color (color_highlight (theme_colors (theme self))) = Inr h
        \<and> hex_to_ass_color (color_outline (theme_colors (theme self))) = Inl e"
  then show "render_segments self segments = Inl e"
    by (simp add: render_segments_def generate_ass_header_def)
next
  assume "hex_to_ass_color (color_primary (theme_colors (theme self))) = Inr p
        \<and> hex_to_ass_color (color_highlight (theme_colors (theme self))) = Inr h
        \<and> hex_to_ass_color (color_outline (theme_colors (theme self))) = Inr ol
        \<and> hex_to_ass_color (color_background (theme_colors (theme self))) = Inl e"
  then show "render_segments self segments = Inl e"
    by (simp add: render_segments_def generate_ass_header_def)
qed

theorem error_asymmetry_witness:
  "wrong_length ''#FFF'' \<and> hex_to_ass_color ''#FFF'' = Inl (InvalidHexColor ''FFF'')
   \<and> wrong_length (color_primary (theme_colors (theme (init_renderer
         (default_theme\<lparr>theme_colors := (theme_colors default_theme)\<lparr>color_primary := ''12345''\<rparr>\<rparr>)
         1080 1920))))
   \<and> render_segments (init_renderer
         (default_theme\<lparr>theme_colors := (theme_colors default_theme)\<lparr>color_primary := ''12345''\<rparr>\<rparr>)
         1080 1920) [example_segment] = Inl (InvalidHexColor ''12345'')
   \<and> valid_hex_color ''#FFFFFF'' \<and> valid_hex_color ''#00FF88'' \<and> valid_hex_color ''#000000''
   \<and> valid_hex_color ''#000000CC''
   \<and> render_segments (init_renderer
         (default_theme\<lparr>theme_colors := (theme_colors default_theme)\<lparr>color_highlight := ''#1''\<rparr>\<rparr>)
         1080 1920) [example_segment] = Inl (InvalidHexColor ''1'')
   \<and> render_segments (init_renderer
         (default_theme\<lparr>theme_colors := (theme_colors default_theme)\<lparr>color_outline := ''#22''\<rparr>\<rparr>)
         1080 1920) [example_segment] = Inl (InvalidHexColor ''22'')
   \<and> render_segments (init_renderer
         (default_theme\<lparr>theme_colors := (theme_colors default_theme)\<lparr>color_background := ''#1234567''\<rparr>\<rparr>)
         1080 1920) [example_segment] = Inl (InvalidHexColor ''1234567'')
   \<and> ''zoom'' \<notin> set [''none'', ''fade'', ''pop'', ''slide_up'', ''slide_down'', ''bounce'']
   \<and> ''spin'' \<notin> set [''none'', ''fade'', ''pop'', ''slide_up'', ''slide_down'', ''bounce'']
   \<and> get_entry_effect ''zoom'' 200 = [] \<and> get_exit_effect ''zoom'' 200 1000 = []
   \<and> karaoke_preamble (init_renderer unknown_effects_theme 1080 1920) 1000 = []
   \<and> render_segment_simple (init_renderer unknown_effects_theme 1080 1920) example_segment
       = dialogue_line (format_time_ass 1) (format_time_ass 2) ''hi there''
   \<and> (\<exists>doc. render_segments (init_renderer unknown_effects_theme 1080 1920) [example_segment]
          = Inr doc)
   \<and> per_word_preamble (init_renderer unknown_effects_theme 1080 1920)
       = ''{'' @ bs @ ''fad('' @ str_int 200 @ '',0)'' @ bs @ ''fad(0,'' @ str_int 200 @ '')}''
   \<and> wrong_length (color_highlight (theme_colors (theme (init_renderer
         (default_theme\<lparr>theme_colors :=
            (theme_colors default_theme)\<lparr>color_primary := ''GGGGGG'', color_highlight := ''#1''\<rparr>\<rparr>)
         1080 1920))))
   \<and> hex_to_ass_color ''GGGGGG'' = Inl (InvalidLiteral ''GG'')
   \<and> render_segments (init_renderer
         (default_theme\<lparr>theme_colors :=
            (theme_colors default_theme)\<lparr>color_primary := ''GGGGGG'', color_highlight := ''#1''\<rparr>\<rparr>)
         1080 1920) [example_segment] = Inl (InvalidLiteral ''GG'')"
  using error_asymmetry [of "''#FFF''"
      "init_renderer
         (default_theme\<lparr>theme_colors :=
            (theme_colors default_theme)\<lparr>color_primary := ''GGGGGG'', color_highlight := ''#1''\<rparr>\<rparr>)
         1080 1920" "[example_segment]" "''zoom''" 200 1000 example_segment "InvalidLiteral ''GG''"]
    error_asymmetry [of "''#FFF''"
      "init_renderer
         (default_theme\<lparr>theme_colors := (theme_colors default_theme)\<lparr>color_primary := ''12345''\<rparr>\<rparr>)
         1080 1920" "[example_segment]" "''zoom''" 200 1000 example_segment]
    error_asymmetry [of "''#FFF''"
      "init_renderer
         (default_theme\<lparr>theme_colors := (theme_colors default_theme)\<lparr>color_highlight := ''#1''\<rparr>\<rparr>)
         1080 1920" "[example_segment]" "''zoom''" 200 1000 example_segment]
    error_asymmetry [of "''#FFF''"
      "init_renderer
         (default_theme\<lparr>theme_colors := (theme_colors default_theme)\<lparr>color_outline := ''#22''\<rparr>\<rparr>)
         1080 1920" "[example_segment]" "''zoom''" 200 1000 example_segment]
    error_asymmetry [of "''#FFF''"
      "init_renderer
         (default_theme\<lparr>theme_colors := (theme_colors default_theme)\<lparr>color_background := ''#1234567''\<rparr>\<rparr>)
         1080 1920" "[example_segment]" "''zoom''" 200 1000 example_segment]
    error_asymmetry [of "''#FFF''"
      "init_renderer unknown_effects_theme 1080 1920" "[example_segment]" "''zoom''" 200 1000
      example_segment]
    invalid_literal_example
  by (simp add: init_renderer_def default_theme_def unknown_effects_theme_def wrong_length_def
      valid_hex_color_def lstrip_chars_def is_hex_digit_def example_segment_def opt_get_def
      strip_def is_space_def)

text \<open>
  The claim as stated has every malformed colour string fail the render and every unknown
  effect name give an empty fragment. The shadow colour is never converted, so a shadow
  colour of the wrong length renders; and the per-word-background strategy does not consult
  the effect catalog, so an unknown entry name gives its fade.
\<close>

theorem error_asymmetry_counterexample:
  "wrong_length (color_shadow (theme_colors (theme (init_renderer short_shadow_theme 1080 1920))))
   \<and> isl (render_segments (init_renderer short_shadow_theme 1080 1920) [example_segment]) = False
   \<and> anim_entry (theme_animation (theme (init_renderer
         (per_word_theme\<lparr>theme_animation :=
            (theme_animation per_word_theme)\<lparr>anim_entry := ''zoom'', anim_exit := ''none''\<rparr>\<rparr>)
         1080 1920))) = ''zoom''
   \<and> per_word_preamble (init_renderer
         (per_word_theme\<lparr>theme_animation :=
            (theme_animation per_word_theme)\<lparr>anim_entry := ''zoom'', anim_exit := ''none''\<rparr>\<rparr>)
         1080 1920) = ''{'' @ bs @ ''fad(200,0)}''"
  by code_simp

section \<open>The style lines of the header\<close>

lemma lines_acc_append:
  "CHR 0x0A \<notin> set l \<Longrightarrow> lines_acc cur (l @ rest) = lines_acc (cur @ l) rest"
  by (induction l arbitrary: cur) auto

lemma lines_acc_nl: "lines_acc cur (nl @ rest) = cur # lines_acc [] rest"
  by (simp add: nl_def)

lemma lines_acc_nl_end: "lines_acc cur nl = [cur]"
  by (simp add: nl_def)

lemma digits_no_lf: "CHR 0x0A \<notin> set (digits_of 10 n)"
proof -
  have "list_all is_decimal_digit (digits_of 10 n)" using digits_of_decimal [of n] by simp
  moreover have "\<not> is_decimal_digit (CHR 0x0A)" by (simp add: is_decimal_digit_def)
  ultimately show ?thesis by (auto simp: list_all_iff)
qed

lemma str_int_no_lf: "CHR 0x0A \<notin> set (str_int n)"
  by (simp add: str_int_def digits_no_lf)

lemma style_fields_no_lf:
  assumes "CHR 0x0A \<notin> set s" "CHR 0x0A \<notin> set ol" "CHR 0x0A \<notin> set b"
  shows "CHR 0x0A \<notin> set (style_fields self s ol b)"
  using assms by (simp add: style_fields_def Let_def str_int_no_lf)


lemma header_text_lines:
  assumes "CHR 0x0A \<notin> set (theme_name (theme self))"
    and "CHR 0x0A \<notin> set (font_family (theme_font (theme self)))"
    and "CHR 0x0A \<notin> set p" "CHR 0x0A \<notin> set s" "CHR 0x0A \<notin> set ol" "CHR 0x0A \<notin> set b"
    and "CHR 0x0A \<notin> set hl"
  shows "style_lines (header_text self p s ol b hl) =
     [''Style: Default,'' @ font_family (theme_font (theme self)) @ '',''
        @ str_int (font_size (theme_font (theme self))) @ '','' @ p @ style_fields self s ol b,
      ''Style: Highlight,'' @ font_family (theme_font (theme self)) @ '',''
        @ str_int (font_size (theme_font (theme self))) @ '','' @ hl @ style_fields self s ol b]"
  using assms style_fields_no_lf [of s ol b self]
  by (simp add: style_lines_def split_lines_def header_text_def lines_acc_append lines_acc_nl
      lines_acc_nl_end str_int_no_lf)


text \<open>
  Claim C6, as amended. For every theme whose five colour fields are valid 6- or 8-digit
  hexadecimal strings and whose name and font family contain no line feed, and for every
  canvas width and height, the header is generated and exactly two of its lines begin with
  \<open>Style: \<close>: the first names the style \<open>Default\<close>, the second the style \<open>Highlight\<close>.
\<close>

theorem header_two_style_lines:
  assumes "valid_hex_color (color_primary (theme_colors (theme self)))"
    and "valid_hex_color (color_highlight (theme_colors (theme self)))"
    and "valid_hex_color (color_background (theme_colors (theme self)))"
    and "valid_hex_color (color_outline (theme_colors (theme self)))"
    and "valid_hex_color (color_shadow (theme_colors (theme self)))"
    and "CHR 0x0A \<notin> set (theme_name (theme self))"
    and "CHR 0x0A \<notin> set (font_family (theme_font (theme self)))"
  shows "\<exists>header default_line highlight_line.
           generate_ass_header self = Inr header
         \<and> style_lines header = [default_line, highlight_line]
         \<and> prefix ''Style: Default,'' default_line
         \<and> prefix ''Style: Highlight,'' highlight_line"
proof -
  obtain p where p: "hex_to_ass_color (color_primary (theme_colors (theme self))) = Inr p"
    "CHR 0x0A \<notin> set p"
    using hex_to_ass_color_valid [OF assms(1)] by blast
  obtain s where s: "hex_to_ass_color (color_highlight (theme_colors (theme self))) = Inr s"
    "CHR 0x0A \<notin> set s"
    using hex_to_ass_color_valid [OF assms(2)] by blast
  obtain b where b: "hex_to_ass_color (color_background (theme_colors (theme self))) = Inr b"
    "CHR 0x0A \<notin> set b"
    using hex_to_ass_color_valid [OF assms(3)] by blast
  obtain ol where ol: "hex_to_ass_color (color_outline (theme_colors (theme self))) = Inr ol"
    "CHR 0x0A \<notin> set ol"
    using hex_to_ass_color_valid [OF assms(4)] by blast
  have h: "generate_ass_header self = Inr (header_text self p s ol b s)"
    by (simp add: generate_ass_header_def p s b ol)
  note l = header_text_lines [OF assms(6) assms(7) p(2) s(2) ol(2) b(2) s(2)]
  let ?d = "''Style: Default,'' @ font_family (theme_font (theme self)) @ '',''
        @ str_int (font_size (theme_font (theme self))) @ '','' @ p @ style_fields self s ol b"
  let ?g = "''Style: Highlight,'' @ font_family (theme_font (theme self)) @ '',''
        @ str_int (font_size (theme_font (theme self))) @ '','' @ s @ style_fields self s ol b"
  show ?thesis
  proof (intro exI conjI)
    show "generate_ass_header self = Inr (header_text self p s ol b s)" by (rule h)
    show "style_lines (header_text self p s ol b s) = [?d, ?g]" by (rule l)
    show "prefix ''Style: Default,'' ?d" by simp
    show "prefix ''Style: Highlight,'' ?g" by simp
  qed
qed

theorem header_two_style_lines_witness:
  "valid_hex_color (color_primary (theme_colors (theme (init_renderer default_theme 1080 1920))))
   \<and> valid_hex_color (color_highlight (theme_colors (theme (init_renderer default_theme 1080 1920))))
   \<and> valid_hex_color (color_background (theme_colors (theme (init_renderer default_theme 1080 1920))))
   \<and> valid_hex_color (color_outline (theme_colors (theme (init_renderer default_theme 1080 1920))))
   \<and> valid_hex_color (color_shadow (theme_colors (theme (init_renderer default_theme 1080 1920))))
   \<and> CHR 0x0A \<notin> set (theme_name (theme (init_renderer default_theme 1080 1920)))
   \<and> CHR 0x0A \<notin> set (font_family (theme_font (theme (init_renderer default_theme 1080 1920))))
   \<and> (\<exists>header default_line highlight_line.
           generate_ass_header (init_renderer default_theme 1080 1920) = Inr header
         \<and> style_lines header = [default_line, highlight_line]
         \<and> prefix ''Style: Default,'' default_line
         \<and> prefix ''Style: Highlight,'' highlight_line)"
proof -
  have v: "valid_hex_color (color_primary (theme_colors (theme (init_renderer default_theme 1080 1920))))"
    "valid_hex_color (color_highlight (theme_colors (theme (init_renderer default_theme 1080 1920))))"
    "valid_hex_color (color_background (theme_colors (theme (init_renderer default_theme 1080 1920))))"
    "valid_hex_color (color_outline (theme_colors (theme (init_renderer default_theme 1080 1920))))"
    "valid_hex_color (color_shadow (theme_colors (theme (init_renderer default_theme 1080 1920))))"
    by (simp_all add: init_renderer_def default_theme_def valid_hex_color_def lstrip_chars_def
        is_hex_digit_def)
  have n: "CHR 0x0A \<notin> set (theme_name (theme (init_renderer default_theme 1080 1920)))"
    "CHR 0x0A \<notin> set (font_family (theme_font (theme (init_renderer default_theme 1080 1920))))"
    by (simp_all add: init_renderer_def default_theme_def)
  from header_two_style_lines [OF v n] v n show ?thesis by blast
qed

text \<open>
  The claim as stated holds for every theme with valid colours: a theme name of two lines,
  the second beginning with \<open>Style: \<close>, is copied into the \<open>Title:\<close> line and gives the
  header three such lines.
\<close>

theorem header_style_lines_counterexample:
  "valid_hex_color (color_primary (theme_colors (theme (init_renderer two_line_name_theme 1080 1920))))
   \<and> valid_hex_color (color_highlight (theme_colors (theme (init_renderer two_line_name_theme 1080 1920))))
   \<and> valid_hex_color (color_background (theme_colors (theme (init_renderer two_line_name_theme 1080 1920))))
   \<and> valid_hex_color (color_outline (theme_colors (theme (init_renderer two_line_name_theme 1080 1920))))
   \<and> valid_hex_color (color_shadow (theme_colors (theme (init_renderer two_line_name_theme 1080 1920))))
   \<and> map_sum id (length \<circ> style_lines) (generate_ass_header (init_renderer two_line_name_theme 1080 1920))
       = Inr 3"
  by code_simp

end
